theory Spec2Isabelle
  imports Main "HOL-Library.AList"
begin

section \<open>Objects, effects and the pairing future\<close>

text \<open>
  JavaScript objects are records that carry their identity (\<open>ref\<close>), since the manager
  compares adapters with \<open>!==\<close>. The registry holds an object as the record it was when
  it was stored; of a stored adapter the statements below use the key, the identity, and
  of the other fields only what later assignments to the object keep.
\<close>

type_synonym ref = nat

datatype js_error = TypeError | FetchError

subsection \<open>Plain objects used as dictionaries\<close>

text \<open>
  \<open>this.adapters\<close> and \<open>this.devices\<close> are plain objects (\<open>{}\<close>) keyed by the string ids
  of adapters and devices. Such an object is the list of its own properties in
  enumeration order (the order of \<open>for ... in\<close>), above the members it inherits from
  \<open>Object.prototype\<close>.

  Reading \<open>obj[key]\<close> gives the own property if there is one, else the inherited member
  of that name (a function, or for \<open>__proto__\<close> the prototype object: never an adapter or
  a device, and always truthy), else \<open>undefined\<close>.
\<close>

datatype 'a member = Undefined | Object 'a | Builtin string

definition Object_prototype :: "string list" where
  "Object_prototype =
     [''constructor'', ''__defineGetter__'', ''__defineSetter__'', ''hasOwnProperty'',
      ''__lookupGetter__'', ''__lookupSetter__'', ''isPrototypeOf'', ''propertyIsEnumerable'',
      ''toString'', ''valueOf'', ''__proto__'', ''toLocaleString'']"

definition property_get :: "(string \<times> 'a) list \<Rightarrow> string \<Rightarrow> 'a member" where
  "property_get own k =
     (case map_of own k of
        Some v \<Rightarrow> Object v
      | None \<Rightarrow> if k \<in> set Object_prototype then Builtin k else Undefined)"

text \<open>
  Own properties are enumerated with the array indices first, in ascending numeric order,
  and then the other keys in the order of their creation. An array index is the canonical
  decimal form of an integer from 0 to \<open>2^32 - 2\<close>.
\<close>

definition digit_value :: "char \<Rightarrow> nat" where
  "digit_value c = length (takeWhile (\<lambda>d. d \<noteq> c) ''0123456789'')"

definition decimal_value :: "string \<Rightarrow> nat" where
  "decimal_value k = foldl (\<lambda>n c. 10 * n + digit_value c) 0 k"

definition array_index :: "string \<Rightarrow> nat option" where
  "array_index k =
     (if k \<noteq> [] \<and> list_all (\<lambda>c. c \<in> set ''0123456789'') k \<and>
         (k = ''0'' \<or> hd k \<noteq> CHR ''0'') \<and> decimal_value k < 4294967295
      then Some (decimal_value k) else None)"

definition index_below :: "nat \<Rightarrow> string \<times> 'a \<Rightarrow> bool" where
  "index_below i p = (case array_index (fst p) of Some j \<Rightarrow> j < i | None \<Rightarrow> False)"

text \<open>
  The assignment \<open>obj[key] = value\<close>: a present key keeps its place and gets the new
  value; a new key enters at its place in the enumeration order. The key \<open>__proto__\<close>,
  whose assignment replaces the prototype of the object instead of storing a property, is
  treated like any other key: adapters and devices are taken not to have this id.
  \<open>delete obj[key]\<close> removes the own property and leaves the inherited members alone.
\<close>

definition property_put :: "string \<Rightarrow> 'a \<Rightarrow> (string \<times> 'a) list \<Rightarrow> (string \<times> 'a) list" where
  "property_put k v own =
     (if k \<in> fst ` set own then AList.update k v own
      else case array_index k of
             None \<Rightarrow> own @ [(k, v)]
           | Some i \<Rightarrow> takeWhile (index_below i) own @ [(k, v)] @ dropWhile (index_below i) own)"

definition property_delete :: "string \<Rightarrow> (string \<times> 'a) list \<Rightarrow> (string \<times> 'a) list" where
  "property_delete k own = AList.delete k own"

subsection \<open>Adapters, devices, effects\<close>

record thing =
  thing_id :: string
  thing_name :: string

record adapter =
  adapter_ref :: ref
  adapter_id :: string
  adapter_name :: string
  constructor_name :: string

record device =
  device_id :: string
  device_adapter :: ref
  device_thing :: thing

datatype payload = AdapterPayload adapter | ThingPayload thing

text \<open>
  Everything the code does to the outside, in the order it does it: events emitted on the
  manager, console output, calls of the adapters' polymorphic methods, calls into the
  Z-Wave driver and the classifier, and settlements of pairing futures.
\<close>

datatype effect =
    Emit string payload
  | ConsoleLog string
  | StartPairing ref
  | CancelPairing ref
  | StartUnpairing ref
  | CancelUnpairing ref
  | Unload ref
  | Resolve nat thing
  | Reject nat string
  | ZWaveConnect string
  | ZWaveDisconnect string
  | Classify nat

text \<open>
  The state of the process as the manager sees it: the four fields of the AdapterManager
  object, the allocation counter of pairing futures, and the trace of effects so far.
\<close>

record manager =
  adapters :: "(string \<times> adapter) list"
  devices :: "(string \<times> device) list"
  deferredAdd :: "nat option"
  deferredRemove :: "nat option"
  nextDeferred :: nat
  trace :: "effect list"

definition AdapterManager_new :: manager where
  "AdapterManager_new =
     \<lparr>adapters = [], devices = [], deferredAdd = None, deferredRemove = None,
      nextDeferred = 0, trace = []\<rparr>"

definition perform :: "effect \<Rightarrow> manager \<Rightarrow> manager" where
  "perform e s = s\<lparr>trace := trace s @ [e]\<rparr>"

definition emit :: "string \<Rightarrow> payload \<Rightarrow> manager \<Rightarrow> manager" where
  "emit name p s = perform (Emit name p) s"

definition console_log :: "string \<Rightarrow> manager \<Rightarrow> manager" where
  "console_log msg s = perform (ConsoleLog msg) s"

text \<open>
  Modelled from the spec: the constructor of the Deferred class (deferred.js is not among
  the sources). A pairing request returns a single future with one resolution slot;
  \<open>new Deferred()\<close> allocates a future with a fresh identity.
\<close>

definition new_Deferred :: "manager \<Rightarrow> nat \<times> manager" where
  "new_Deferred s = (nextDeferred s, s\<lparr>nextDeferred := Suc (nextDeferred s)\<rparr>)"

text \<open>
  Modelled from the spec: \<open>Deferred.resolve\<close> (deferred.js is not among the sources); the
  call is recorded in the trace.
\<close>

definition deferred_resolve :: "nat \<Rightarrow> thing \<Rightarrow> manager \<Rightarrow> manager" where
  "deferred_resolve d t s = perform (Resolve d t) s"

text \<open>
  Modelled from the spec: \<open>Deferred.reject\<close> (deferred.js is not among the sources); the
  call is recorded in the trace.
\<close>

definition deferred_reject :: "nat \<Rightarrow> string \<Rightarrow> manager \<Rightarrow> manager" where
  "deferred_reject d reason s = perform (Reject d reason) s"

text \<open>
  Modelled from the spec: the resolution slot of a future (deferred.js is not among the
  sources): not yet resolved, resolved with a thing, or rejected with a reason. It is
  written once, by the first settlement of the future in the trace.
\<close>

datatype slot = Pending | Resolved thing | Rejected string

fun promise_slot :: "effect list \<Rightarrow> nat \<Rightarrow> slot" where
  "promise_slot [] d = Pending"
| "promise_slot (Resolve d' t # es) d = (if d' = d then Resolved t else promise_slot es d)"
| "promise_slot (Reject d' r # es) d = (if d' = d then Rejected r else promise_slot es d)"
| "promise_slot (_ # es) d = promise_slot es d"

text \<open>The futures settled in a trace, in order, one entry per \<open>resolve\<close> or \<open>reject\<close> call.\<close>

fun settlements :: "effect list \<Rightarrow> nat list" where
  "settlements [] = []"
| "settlements (Resolve d t # es) = d # settlements es"
| "settlements (Reject d r # es) = d # settlements es"
| "settlements (_ # es) = settlements es"

text \<open>
  Modelled from the spec: Device.getThing (device.js is not among the sources). The thing
  is the uniform representation of the device, independent of its adapter.
\<close>

definition getThing_of :: "device \<Rightarrow> thing" where
  "getThing_of d = device_thing d"


section \<open>AdapterManager (adapter-manager.js)\<close>

text \<open>\<open>for (var adapterId in this.adapters) { var adapter = this.adapters[adapterId]; ... }\<close>\<close>

definition for_each_adapter :: "(adapter \<Rightarrow> manager \<Rightarrow> manager) \<Rightarrow> manager \<Rightarrow> manager" where
  "for_each_adapter body s = fold (\<lambda>(adapterId, a). body a) (adapters s) s"

definition addAdapter :: "adapter \<Rightarrow> manager \<Rightarrow> manager" where
  "addAdapter a s =
     (let a' = a\<lparr>adapter_name := constructor_name a\<rparr>;
          s1 = s\<lparr>adapters := property_put (adapter_id a') a' (adapters s)\<rparr>
      in emit ''adapter-added'' (AdapterPayload a') s1)"

definition addNewThing :: "manager \<Rightarrow> nat \<times> manager" where
  "addNewThing s0 =
     (let (d, s) = new_Deferred s0 in
      if deferredAdd s \<noteq> None then (d, deferred_reject d ''Add already in progress'' s)
      else if deferredRemove s \<noteq> None then
        (d, deferred_reject d ''Remove already in progress'' s)
      else
        (d, for_each_adapter
              (\<lambda>a s'. perform (StartPairing (adapter_ref a))
                         (console_log (''About to call startPairing on '' @ adapter_name a) s'))
              (s\<lparr>deferredAdd := Some d\<rparr>)))"

definition cancelAddNewThing :: "manager \<Rightarrow> manager" where
  "cancelAddNewThing s =
     (case deferredAdd s of
        None \<Rightarrow> s
      | Some d \<Rightarrow>
          (let s1 = for_each_adapter (\<lambda>a. perform (CancelPairing (adapter_ref a))) s;
               s2 = s1\<lparr>deferredAdd := None\<rparr>
           in deferred_reject d ''addNewThing cancelled'' s2))"

definition cancelRemoveSomeThing :: "manager \<Rightarrow> manager" where
  "cancelRemoveSomeThing s =
     (case deferredRemove s of
        None \<Rightarrow> s
      | Some d \<Rightarrow>
          (let s1 = for_each_adapter (\<lambda>a. perform (CancelUnpairing (adapter_ref a))) s;
               s2 = s1\<lparr>deferredRemove := None\<rparr>
           in deferred_reject d ''removeSomeThing cancelled'' s2))"

definition getAdapter :: "manager \<Rightarrow> string \<Rightarrow> adapter member" where
  "getAdapter s i = property_get (adapters s) i"

definition getAdapters :: "manager \<Rightarrow> (string \<times> adapter) list" where
  "getAdapters s = adapters s"

definition getDevice :: "manager \<Rightarrow> string \<Rightarrow> device member" where
  "getDevice s i = property_get (devices s) i"

definition getDevices :: "manager \<Rightarrow> (string \<times> device) list" where
  "getDevices s = devices s"

text \<open>
  \<open>var device = this.getDevice(thingId); if (device) { return device.getThing(); }\<close>
  An inherited member is truthy and has no method \<open>getThing\<close>, so the call throws a
  TypeError; the same holds for \<open>getProperty\<close> and \<open>setProperty\<close> below. A result is
  the value returned (\<open>None\<close> for \<open>undefined\<close>), or the error thrown.
\<close>

definition getThing :: "manager \<Rightarrow> string \<Rightarrow> js_error + thing option" where
  "getThing s thingId =
     (case getDevice s thingId of
        Object dev \<Rightarrow> Inr (Some (getThing_of dev))
      | Builtin m \<Rightarrow> Inl TypeError
      | Undefined \<Rightarrow> Inr None)"

text \<open>
  \<open>for (var thingId in this.devices) { things.push(this.getThing(thingId)); }\<close>: an
  error thrown by \<open>getThing\<close> ends the loop.
\<close>

definition getThings :: "manager \<Rightarrow> js_error + thing option list" where
  "getThings s =
     fold (\<lambda>(thingId, dev) things.
             case things of
               Inl e \<Rightarrow> Inl e
             | Inr ts \<Rightarrow> (case getThing s thingId of Inl e \<Rightarrow> Inl e | Inr t \<Rightarrow> Inr (ts @ [t])))
          (devices s) (Inr [])"

text \<open>
  \<open>getProperty\<close> and \<open>setProperty\<close> proxy to the device. The Device class is not among the
  sources, so its two methods are parameters: \<open>dev_get\<close> returns a value, \<open>dev_set\<close> may
  change anything. With no such member both return \<open>undefined\<close> (here \<open>None\<close>, and the
  unchanged state); an error is thrown before anything is changed.
\<close>

definition getProperty ::
  "(device \<Rightarrow> string \<Rightarrow> 'v) \<Rightarrow> manager \<Rightarrow> string \<Rightarrow> string \<Rightarrow> js_error + 'v option" where
  "getProperty dev_get s thingId propertyName =
     (case getDevice s thingId of
        Object dev \<Rightarrow> Inr (Some (dev_get dev propertyName))
      | Builtin m \<Rightarrow> Inl TypeError
      | Undefined \<Rightarrow> Inr None)"

definition setProperty ::
  "(device \<Rightarrow> string \<Rightarrow> 'v \<Rightarrow> manager \<Rightarrow> manager) \<Rightarrow>
     manager \<Rightarrow> string \<Rightarrow> string \<Rightarrow> 'v \<Rightarrow> js_error + manager" where
  "setProperty dev_set s thingId propertyName v =
     (case getDevice s thingId of
        Object dev \<Rightarrow> Inr (dev_set dev propertyName v s)
      | Builtin m \<Rightarrow> Inl TypeError
      | Undefined \<Rightarrow> Inr s)"

definition handleDeviceAdded :: "device \<Rightarrow> manager \<Rightarrow> manager" where
  "handleDeviceAdded dev s =
     (let s1 = s\<lparr>devices := property_put (device_id dev) dev (devices s)\<rparr>;
          t = getThing_of dev;
          s2 = emit ''thing-added'' (ThingPayload t) s1
      in case deferredAdd s2 of
           None \<Rightarrow> s2
         | Some d \<Rightarrow>
             (let s3 = s2\<lparr>deferredAdd := None\<rparr>;
                  s4 = for_each_adapter
                         (\<lambda>a s'. if adapter_ref a \<noteq> device_adapter dev
                                  then perform (CancelPairing (adapter_ref a)) s' else s') s3;
                  s5 = console_log ''AdapterManager: About to resolve deferredAdd'' s4
              in deferred_resolve d t s5))"

definition handleDeviceRemoved :: "device \<Rightarrow> manager \<Rightarrow> manager" where
  "handleDeviceRemoved dev s =
     (let s1 = s\<lparr>devices := property_delete (device_id dev) (devices s)\<rparr>;
          t = getThing_of dev;
          s2 = emit ''thing-removed'' (ThingPayload t) s1;
          s3 = console_log ''AdapterManager: handleDeviceRemoved'' s2
      in case deferredRemove s3 of
           None \<Rightarrow> s3
         | Some d \<Rightarrow>
             (let s4 = s3\<lparr>deferredRemove := None\<rparr>;
                  s5 = for_each_adapter
                         (\<lambda>a s'. if adapter_ref a \<noteq> device_adapter dev
                                  then perform (CancelUnpairing (adapter_ref a)) s' else s') s4;
                  s6 = console_log ''AdapterManager: About to resolve deferredRemove'' s5
              in deferred_resolve d t s6))"

definition removeSomeThing :: "manager \<Rightarrow> nat \<times> manager" where
  "removeSomeThing s0 =
     (let (d, s) = new_Deferred s0 in
      if deferredAdd s \<noteq> None then (d, deferred_reject d ''Add already in progress'' s)
      else if deferredRemove s \<noteq> None then
        (d, deferred_reject d ''Remove already in progress'' s)
      else
        (d, for_each_adapter (\<lambda>a. perform (StartUnpairing (adapter_ref a)))
              (s\<lparr>deferredRemove := Some d\<rparr>)))"

definition unloadAdapters :: "manager \<Rightarrow> manager" where
  "unloadAdapters s =
     for_each_adapter
       (\<lambda>a s'. perform (Unload (adapter_ref a)) (console_log (''Unloading '' @ adapter_name a) s'))
       s"

text \<open>Calls on the manager, and their execution in sequence from a given state.\<close>

datatype call =
    AddAdapter adapter
  | AddNewThing
  | RemoveSomeThing
  | CancelAddNewThing
  | CancelRemoveSomeThing
  | HandleDeviceAdded device
  | HandleDeviceRemoved device

fun step :: "call \<Rightarrow> manager \<Rightarrow> manager" where
  "step (AddAdapter a) s = addAdapter a s"
| "step AddNewThing s = snd (addNewThing s)"
| "step RemoveSomeThing s = snd (removeSomeThing s)"
| "step CancelAddNewThing s = cancelAddNewThing s"
| "step CancelRemoveSomeThing s = cancelRemoveSomeThing s"
| "step (HandleDeviceAdded dev) s = handleDeviceAdded dev s"
| "step (HandleDeviceRemoved dev) s = handleDeviceRemoved dev s"

definition run :: "call list \<Rightarrow> manager \<Rightarrow> manager" where
  "run cs s = fold step cs s"



section \<open>ZWaveAdapter (adapters/zwave/zwave-adapter.js)\<close>

text \<open>
  \<open>Number.prototype.toString(radix)\<close> on a natural number (the home id is an unsigned
  32-bit integer, an HTTP status a small natural): lower-case digits, no leading zero.
  The code calls it with radix 16 and, in string concatenation, radix 10; JavaScript
  raises a RangeError for a radix below 2, which no call here has.
\<close>

definition digit_char :: "nat \<Rightarrow> char" where
  "digit_char d = ''0123456789abcdefghijklmnopqrstuvwxyz'' ! (d mod 36)"

function number_toString :: "nat \<Rightarrow> nat \<Rightarrow> string" where
  "number_toString radix n =
     (if n < radix \<or> radix < 2 then [digit_char n]
      else number_toString radix (n div radix) @ [digit_char (n mod radix)])"
  by pat_completeness auto
termination
  by (relation "measure (\<lambda>(radix, n). n)") auto

declare number_toString.simps [simp del]

text \<open>
  \<open>class ZWaveNode extends Device\<close> (zwave-node.js is not among the sources): of a node
  the adapter reads \<open>nodeId\<close>, \<open>zwInfo.nodeId\<close> and writes \<open>lastStatus\<close>; they are fields
  beside those of the device. \<open>class ZWaveAdapter extends Adapter\<close>: the adapter's own
  fields beside those of the base class; \<open>owned\<close> is the base class's mapping from
  device ids to its devices.
\<close>

record zwave_node = device +
  nodeId :: nat
  zwInfo_nodeId :: nat
  lastStatus :: string

record zwave_adapter = adapter +
  ready :: bool
  named :: bool
  port_comName :: string
  nodes :: "nat \<rightharpoonup> zwave_node"
  nodesBeingAdded :: "nat \<rightharpoonup> zwave_node"
  owned :: "string \<rightharpoonup> device"

text \<open>
  Modelled from the spec: the constructor of the Adapter base class (adapter.js is not
  among the sources). It keeps the manager and the given id and registers nothing: a
  loader calls \<open>addAdapter\<close> once the adapter is driver-ready.
\<close>

definition Adapter_new :: "ref \<Rightarrow> string \<Rightarrow> string \<Rightarrow> adapter" where
  "Adapter_new r i cls =
     \<lparr>adapter_ref = r, adapter_id = i, adapter_name = cls, constructor_name = cls\<rparr>"

text \<open>
  Modelled from the spec: \<open>Adapter.handleDeviceAdded\<close> (adapter.js is not among the
  sources). The discovery callback records the device in the adapter's own mapping and
  invokes the manager's \<open>handleDeviceAdded\<close>.
\<close>

definition Adapter_handleDeviceAdded ::
  "device \<Rightarrow> zwave_adapter \<Rightarrow> manager \<Rightarrow> zwave_adapter \<times> manager" where
  "Adapter_handleDeviceAdded dev zw s =
     (zw\<lparr>owned := (owned zw)(device_id dev \<mapsto> dev)\<rparr>, handleDeviceAdded dev s)"

text \<open>
  Modelled from the spec: \<open>Adapter.handleDeviceRemoved\<close> (adapter.js is not among the
  sources). The removal callback drops the device from the adapter's own mapping and
  invokes the manager's \<open>handleDeviceRemoved\<close>.
\<close>

definition Adapter_handleDeviceRemoved ::
  "device \<Rightarrow> zwave_adapter \<Rightarrow> manager \<Rightarrow> zwave_adapter \<times> manager" where
  "Adapter_handleDeviceRemoved dev zw s =
     (zw\<lparr>owned := (owned zw)(device_id dev := None)\<rparr>, handleDeviceRemoved dev s)"

text \<open>
  \<open>new ZWaveAdapter(adapterManager, port)\<close>: \<open>r\<close> is the identity of the new object. The
  id is the provisional \<open>'???'\<close>; the constructor connects the driver and does not call
  \<open>addAdapter\<close>.
\<close>

definition ZWaveAdapter_new :: "ref \<Rightarrow> string \<Rightarrow> manager \<Rightarrow> zwave_adapter \<times> manager" where
  "ZWaveAdapter_new r comName s =
     (adapter.extend (Adapter_new r ''???'' ''ZWaveAdapter'')
        (zwave_adapter.fields False False comName Map.empty Map.empty Map.empty),
      perform (ZWaveConnect comName) s)"

text \<open>
  \<open>driverReady(homeId)\<close>. \<open>addAdapter\<close> assigns \<open>name\<close> on the object it is given, which is
  this adapter, so the adapter returned carries that name too.
\<close>

definition driverReady :: "nat \<Rightarrow> zwave_adapter \<Rightarrow> manager \<Rightarrow> zwave_adapter \<times> manager" where
  "driverReady homeId zw s =
     (let s1 = console_log (''ZWave: Driver Ready: HomeId: '' @ number_toString 16 homeId) s;
          zw1 = zw\<lparr>adapter_id := ''zwave-'' @ number_toString 16 homeId\<rparr>
      in (zw1\<lparr>adapter_name := constructor_name zw1\<rparr>, addAdapter (adapter.truncate zw1) s1))"

definition driverFailed :: "zwave_adapter \<Rightarrow> manager \<Rightarrow> zwave_adapter \<times> manager" where
  "driverFailed zw s =
     (zw, perform (ZWaveDisconnect (port_comName zw))
            (console_log ''ZWave: failed to start driver'' s))"

text \<open>
  \<open>handleDeviceAdded(node)\<close>. The classifier (zwave-classifier.js is not among the sources)
  is the parameter \<open>classify\<close>; its call is recorded in the trace.
\<close>

definition ZWaveAdapter_handleDeviceAdded ::
  "(zwave_node \<Rightarrow> zwave_node) \<Rightarrow> zwave_node \<Rightarrow> zwave_adapter \<Rightarrow> manager \<Rightarrow>
     zwave_adapter \<times> manager" where
  "ZWaveAdapter_handleDeviceAdded classify node zw s =
     (let zw1 = zw\<lparr>nodesBeingAdded := (nodesBeingAdded zw)(zwInfo_nodeId node := None)\<rparr>
      in if nodeId node > 1 then
           Adapter_handleDeviceAdded (device.truncate (classify node)) zw1
             (perform (Classify (nodeId node)) s)
         else (zw1, s))"

definition ZWaveAdapter_handleDeviceRemoved ::
  "zwave_node \<Rightarrow> zwave_adapter \<Rightarrow> manager \<Rightarrow> zwave_adapter \<times> manager" where
  "ZWaveAdapter_handleDeviceRemoved node zw s =
     (let zw1 = zw\<lparr>nodes := (nodes zw)(zwInfo_nodeId node := None)\<rparr>;
          zw2 = zw1\<lparr>nodesBeingAdded := (nodesBeingAdded zw1)(zwInfo_nodeId node := None)\<rparr>
      in Adapter_handleDeviceRemoved (device.truncate node) zw2 s)"

text \<open>
  What can happen to a gateway with one Z-Wave adapter: a call on the manager, or a
  notification of the driver reaching the adapter. Of the adapter's handlers only
  \<open>driverReady\<close>, \<open>handleDeviceAdded\<close> (called by \<open>nodeReady\<close> and \<open>scanComplete\<close>) and
  \<open>handleDeviceRemoved\<close> (called by \<open>nodeRemoved\<close>) reach the manager; \<open>DeviceAdded\<close> and
  \<open>DeviceRemoved\<close> stand for these calls, with any node.
\<close>

datatype zwave_event =
    DriverReady nat
  | DriverFailed
  | DeviceAdded zwave_node
  | DeviceRemoved zwave_node

datatype event = Manager call | ZWave zwave_event

fun fire ::
  "(zwave_node \<Rightarrow> zwave_node) \<Rightarrow> event \<Rightarrow> zwave_adapter \<times> manager \<Rightarrow> zwave_adapter \<times> manager"
  where
  "fire classify (Manager c) (zw, s) = (zw, step c s)"
| "fire classify (ZWave (DriverReady homeId)) (zw, s) = driverReady homeId zw s"
| "fire classify (ZWave DriverFailed) (zw, s) = driverFailed zw s"
| "fire classify (ZWave (DeviceAdded node)) (zw, s) =
     ZWaveAdapter_handleDeviceAdded classify node zw s"
| "fire classify (ZWave (DeviceRemoved node)) (zw, s) =
     ZWaveAdapter_handleDeviceRemoved node zw s"

definition gateway ::
  "(zwave_node \<Rightarrow> zwave_node) \<Rightarrow> ref \<Rightarrow> string \<Rightarrow> event list \<Rightarrow> zwave_adapter \<times> manager" where
  "gateway classify r comName evs =
     fold (fire classify) evs (ZWaveAdapter_new r comName AdapterManager_new)"



section \<open>SmartPlug (the Smart Plug element of the user interface)\<close>

text \<open>
  The values the plug caches in \<open>this.properties\<close>. Power readings are taken as integers.
  \<open>truthy\<close> is the condition of an \<open>if\<close>, \<open>jsval_toString\<close> the conversion of \<open>'...' + v\<close>.
\<close>

datatype jsval = JUndefined | JNull | JBool bool | JNum int

definition truthy :: "jsval \<Rightarrow> bool" where
  "truthy v = (case v of JUndefined \<Rightarrow> False | JNull \<Rightarrow> False | JBool b \<Rightarrow> b | JNum n \<Rightarrow> n \<noteq> 0)"

definition jsval_toString :: "jsval \<Rightarrow> string" where
  "jsval_toString v =
     (case v of
        JUndefined \<Rightarrow> ''undefined''
      | JNull \<Rightarrow> ''null''
      | JBool b \<Rightarrow> (if b then ''true'' else ''false'')
      | JNum n \<Rightarrow> (if n < 0 then ''-'' @ number_toString 10 (nat (- n))
                   else number_toString 10 (nat n)))"

record request =
  req_method :: string
  req_url :: "string option"
  req_body :: "(string \<times> jsval) list"
  req_authorization :: string

datatype plug_effect =
    Console_log string
  | Console_error string
  | Console_error_with string js_error
  | Fetch request

text \<open>
  The plug: the class list of its element, the cached properties, the text of the
  \<open>.smart-plug-power\<close> label (\<open>None\<close> when \<open>querySelector\<close> found no such element, so that
  writing its \<open>innerText\<close> throws a TypeError), the property URL, the token in
  \<open>window.API.jwt\<close>, and what the plug has written to the console and the network.
\<close>

record smart_plug =
  classList :: "string list"
  properties_on :: jsval
  properties_power :: jsval
  powerLabel :: "string option"
  onPropertyUrl :: "string option"
  jwt :: string
  plug_effects :: "plug_effect list"

definition plug_perform :: "plug_effect \<Rightarrow> smart_plug \<Rightarrow> smart_plug" where
  "plug_perform e p = p\<lparr>plug_effects := plug_effects p @ [e]\<rparr>"

definition classList_remove :: "string \<Rightarrow> smart_plug \<Rightarrow> smart_plug" where
  "classList_remove c p = p\<lparr>classList := removeAll c (classList p)\<rparr>"

definition classList_add :: "string \<Rightarrow> smart_plug \<Rightarrow> smart_plug" where
  "classList_add c p =
     p\<lparr>classList := (if c \<in> set (classList p) then classList p else classList p @ [c])\<rparr>"

text \<open>\<open>this.powerLabel.innerText = label\<close>; the first component is the error thrown, if any.\<close>

definition set_powerLabel :: "string \<Rightarrow> smart_plug \<Rightarrow> js_error option \<times> smart_plug" where
  "set_powerLabel label p =
     (case powerLabel p of
        None \<Rightarrow> (Some TypeError, p)
      | Some old \<Rightarrow> (None, p\<lparr>powerLabel := Some label\<rparr>))"

definition showPower :: "jsval \<Rightarrow> smart_plug \<Rightarrow> js_error option \<times> smart_plug" where
  "showPower watts p =
     (let p1 = plug_perform (Console_log (''Power '' @ jsval_toString watts)) p
      in if truthy (properties_power p1) then set_powerLabel (jsval_toString watts @ ''W'') p1
         else set_powerLabel ''0W'' p1)"

definition showOn :: "smart_plug \<Rightarrow> js_error option \<times> smart_plug" where
  "showOn p =
     (let p1 = classList_add ''on'' (classList_remove ''off'' p)
      in showPower (properties_power p1) p1)"

definition showOff :: "smart_plug \<Rightarrow> js_error option \<times> smart_plug" where
  "showOff p = set_powerLabel ''OFF'' (classList_add ''off'' (classList_remove ''on'' p))"

definition showTransition :: "smart_plug \<Rightarrow> smart_plug" where
  "showTransition p = classList_remove ''off'' (classList_remove ''on'' p)"

text \<open>
  \<open>turnOn()\<close> and \<open>turnOff()\<close> up to their return: the transition is shown, the cached
  value is set to \<open>null\<close>, and the PUT request is issued last.
\<close>

definition put_on :: "bool \<Rightarrow> smart_plug \<Rightarrow> request" where
  "put_on b p =
     \<lparr>req_method = ''PUT'', req_url = onPropertyUrl p, req_body = [(''on'', JBool b)],
      req_authorization = ''Bearer '' @ jwt p\<rparr>"

definition turnOn :: "smart_plug \<Rightarrow> smart_plug" where
  "turnOn p =
     (let p1 = showTransition p;
          p2 = p1\<lparr>properties_on := JNull\<rparr>
      in plug_perform (Fetch (put_on True p2)) p2)"

definition turnOff :: "smart_plug \<Rightarrow> smart_plug" where
  "turnOff p =
     (let p1 = showTransition p;
          p2 = p1\<lparr>properties_on := JNull\<rparr>
      in plug_perform (Fetch (put_on False p2)) p2)"

text \<open>
  The promise chain \<open>fetch(...).then(onResponse).catch(onError)\<close>, run when the request
  settles: with a response of some status, or with a rejection. An error thrown inside
  the \<open>then\<close> callback reaches the \<open>catch\<close> callback, with the changes made before it.
\<close>

datatype fetch_outcome = Response nat | Failed js_error

definition turnOn_then :: "nat \<Rightarrow> smart_plug \<Rightarrow> js_error option \<times> smart_plug" where
  "turnOn_then status p =
     (if status = 200 then
        (case showOn p of
           (None, p1) \<Rightarrow> (None, p1\<lparr>properties_on := JBool True\<rparr>)
         | (Some e, p1) \<Rightarrow> (Some e, p1))
      else
        (None, plug_perform
                 (Console_error (''Status '' @ number_toString 10 status @
                                 '' trying to turn on plug'')) p))"

definition turnOn_settled :: "fetch_outcome \<Rightarrow> smart_plug \<Rightarrow> smart_plug" where
  "turnOn_settled outcome p =
     (case outcome of
        Response status \<Rightarrow>
          (case turnOn_then status p of
             (None, p1) \<Rightarrow> p1
           | (Some e, p1) \<Rightarrow>
               plug_perform (Console_error_with ''Error trying to turn on plug: '' e) p1)
      | Failed e \<Rightarrow> plug_perform (Console_error_with ''Error trying to turn on plug: '' e) p)"

definition turnOff_then :: "nat \<Rightarrow> smart_plug \<Rightarrow> js_error option \<times> smart_plug" where
  "turnOff_then status p =
     (if status = 200 then
        (case showOff p of
           (None, p1) \<Rightarrow> (None, p1\<lparr>properties_on := JBool False\<rparr>)
         | (Some e, p1) \<Rightarrow> (Some e, p1))
      else
        (None, plug_perform
                 (Console_error (''Status '' @ number_toString 10 status @
                                 '' trying to turn off switch'')) p))"

definition turnOff_settled :: "fetch_outcome \<Rightarrow> smart_plug \<Rightarrow> smart_plug" where
  "turnOff_settled outcome p =
     (case outcome of
        Response status \<Rightarrow>
          (case turnOff_then status p of
             (None, p1) \<Rightarrow> p1
           | (Some e, p1) \<Rightarrow>
               plug_perform (Console_error_with ''Error trying to turn off switch: '' e) p1)
      | Failed e \<Rightarrow> plug_perform (Console_error_with ''Error trying to turn off switch: '' e) p)"


section \<open>Notions used in the statements\<close>

text \<open>
  The identities of the registered adapters in enumeration order, those other than a given
  adapter, and what the loop of \<open>addNewThing\<close> writes to the trace.
\<close>

definition registered_refs :: "manager \<Rightarrow> ref list" where
  "registered_refs s = map (\<lambda>(adapterId, a). adapter_ref a) (adapters s)"

definition other_refs :: "ref \<Rightarrow> manager \<Rightarrow> ref list" where
  "other_refs r s = filter (\<lambda>r'. r' \<noteq> r) (registered_refs s)"

definition startPairing_effects :: "manager \<Rightarrow> effect list" where
  "startPairing_effects s =
     concat (map (\<lambda>(adapterId, a).
       [ConsoleLog (''About to call startPairing on '' @ adapter_name a),
        StartPairing (adapter_ref a)]) (adapters s))"

text \<open>
  The invariant of the pairing sessions: at most one of the two is active, an active
  session's future is allocated and not yet settled, and no future is settled twice.
\<close>

definition session_inv :: "manager \<Rightarrow> bool" where
  "session_inv s \<longleftrightarrow>
     (deferredAdd s = None \<or> deferredRemove s = None) \<and>
     (\<forall>d. deferredAdd s = Some d \<or> deferredRemove s = Some d \<longrightarrow>
          d \<notin> set (settlements (trace s))) \<and>
     (\<forall>d. deferredAdd s = Some d \<or> deferredRemove s = Some d \<longrightarrow> d < nextDeferred s) \<and>
     (\<forall>d \<in> set (settlements (trace s)). d < nextDeferred s) \<and>
     distinct (settlements (trace s))"

text \<open>
  The invariant of a gateway with one Z-Wave adapter of identity \<open>r\<close>, after the events
  \<open>evs\<close>: the adapter's id is the provisional one exactly as long as no driver-ready
  notification has arrived, and every registration of the adapter is under an id that a
  driver-ready notification gave it.
\<close>

definition zwave_inv :: "ref \<Rightarrow> event list \<Rightarrow> zwave_adapter \<times> manager \<Rightarrow> bool" where
  "zwave_inv r evs g \<longleftrightarrow>
     (case g of (zw, s) \<Rightarrow>
        adapter_ref zw = r \<and>
        (adapter_id zw = ''???'' \<and> (\<forall>h. ZWave (DriverReady h) \<notin> set evs) \<or>
         (\<exists>h. ZWave (DriverReady h) \<in> set evs \<and>
              adapter_id zw = ''zwave-'' @ number_toString 16 h)) \<and>
        (\<forall>(k, a) \<in> set (adapters s).
           adapter_ref a = r \<longrightarrow>
             adapter_id a \<noteq> ''???'' \<and>
             (\<exists>h. ZWave (DriverReady h) \<in> set evs \<and> k = ''zwave-'' @ number_toString 16 h)))"

section \<open>A running example\<close>

text \<open>
  Two adapters A and B, and a second adapter object with the id of A; a plug reported by
  A and a lamp reported by B; the manager after \<open>addNewThing()\<close>, and after the plug was
  added and \<open>removeSomeThing()\<close> was called; a device whose id is the name of a member
  of \<open>Object.prototype\<close>. For the Z-Wave adapter: its controller node,
  a plug node, and the adapter while both are being added. For the user interface: a
  plug confirmed to be on.
\<close>

definition adapterA :: adapter where
  "adapterA = \<lparr>adapter_ref = 11, adapter_id = ''zwave-c0ffee'', adapter_name = [],
                constructor_name = ''ZWaveAdapter''\<rparr>"

definition adapterB :: adapter where
  "adapterB = \<lparr>adapter_ref = 12, adapter_id = ''zigbee-0'', adapter_name = [],
                constructor_name = ''ZigBeeAdapter''\<rparr>"

definition plug7 :: device where
  "plug7 = \<lparr>device_id = ''plug-7'', device_adapter = 11,
             device_thing = \<lparr>thing_id = ''plug-7'', thing_name = ''Smart Plug''\<rparr>\<rparr>"


definition adding :: manager where
  "adding = run [AddAdapter adapterA, AddAdapter adapterB, AddNewThing] AdapterManager_new"

definition removing :: manager where
  "removing = run [AddAdapter adapterA, AddAdapter adapterB, HandleDeviceAdded plug7,
                   RemoveSomeThing] AdapterManager_new"

definition adapterA2 :: adapter where
  "adapterA2 = \<lparr>adapter_ref = 13, adapter_id = ''zwave-c0ffee'', adapter_name = [],
                 constructor_name = ''MockAdapter''\<rparr>"

definition controller_node :: zwave_node where
  "controller_node =
     \<lparr>device_id = ''zwave-c0ffee-1'', device_adapter = 11,
      device_thing = \<lparr>thing_id = ''zwave-c0ffee-1'', thing_name = ''Z-Stick''\<rparr>,
      nodeId = 1, zwInfo_nodeId = 1, lastStatus = ''ready''\<rparr>"

definition plug_node :: zwave_node where
  "plug_node =
     \<lparr>device_id = ''zwave-c0ffee-2'', device_adapter = 11,
      device_thing = \<lparr>thing_id = ''zwave-c0ffee-2'', thing_name = ''Smart Plug''\<rparr>,
      nodeId = 2, zwInfo_nodeId = 2, lastStatus = ''ready''\<rparr>"

definition zstick :: zwave_adapter where
  "zstick =
     (fst (ZWaveAdapter_new 11 ''/dev/ttyACM0'' AdapterManager_new))
       \<lparr>nodesBeingAdded := [1 \<mapsto> controller_node, 2 \<mapsto> plug_node]\<rparr>"

definition confirmed_on :: smart_plug where
  "confirmed_on =
     \<lparr>classList = [''thing'', ''smart-plug'', ''on''], properties_on = JBool True,
      properties_power = JNum 5, powerLabel = Some ''5W'',
      onPropertyUrl = Some ''/things/plug-7/properties/on'', jwt = ''token'',
      plug_effects = []\<rparr>"

definition toString_device :: device where
  "toString_device =
     \<lparr>device_id = ''toString'', device_adapter = 11,
      device_thing = \<lparr>thing_id = ''toString'', thing_name = ''Smart Plug''\<rparr>\<rparr>"


section \<open>Lemmas\<close>

subsection \<open>Loops over the adapters\<close>

lemma fold_append_trace:
  "fold (\<lambda>(k, a) s. s\<lparr>trace := trace s @ f a\<rparr>) xs s =
     s\<lparr>trace := trace s @ concat (map (\<lambda>(k, a). f a) xs)\<rparr>"
  by (induction xs arbitrary: s) (auto)

lemma for_each_adapter_trace:
  assumes "\<And>a s. body a s = s\<lparr>trace := trace s @ f a\<rparr>"
  shows "for_each_adapter body s =
           s\<lparr>trace := trace s @ concat (map (\<lambda>(k, a). f a) (adapters s))\<rparr>"
proof -
  have "body = (\<lambda>a s. s\<lparr>trace := trace s @ f a\<rparr>)"
    by (intro ext) (rule assms)
  then show ?thesis
    unfolding for_each_adapter_def by (simp add: fold_append_trace)
qed

lemma concat_singletons: "concat (map (\<lambda>(k, a). [g a]) xs) = map (\<lambda>(k, a). g a) xs"
  by (induction xs) auto

lemma concat_others:
  "concat (map (\<lambda>(k, a). if adapter_ref a \<noteq> r then [g (adapter_ref a)] else []) xs) =
     map g (filter (\<lambda>r'. r' \<noteq> r) (map (\<lambda>(k, a). adapter_ref a) xs))"
  by (induction xs) auto

lemma for_each_all:
  "for_each_adapter (\<lambda>a. perform (g (adapter_ref a))) s =
     s\<lparr>trace := trace s @ map g (registered_refs s)\<rparr>"
proof -
  have "for_each_adapter (\<lambda>a. perform (g (adapter_ref a))) s =
          s\<lparr>trace := trace s @ concat (map (\<lambda>(k, a). [g (adapter_ref a)]) (adapters s))\<rparr>"
    by (rule for_each_adapter_trace) (simp add: perform_def)
  also have "concat (map (\<lambda>(k, a). [g (adapter_ref a)]) (adapters s)) = map g (registered_refs s)"
    by (simp add: concat_singletons registered_refs_def comp_def case_prod_unfold)
  finally show ?thesis .
qed

lemma for_each_others:
  "for_each_adapter
     (\<lambda>a s'. if adapter_ref a \<noteq> r then perform (g (adapter_ref a)) s' else s') s =
     s\<lparr>trace := trace s @ map g (other_refs r s)\<rparr>"
proof -
  have "for_each_adapter
     (\<lambda>a s'. if adapter_ref a \<noteq> r then perform (g (adapter_ref a)) s' else s') s =
          s\<lparr>trace := trace s @
             concat (map (\<lambda>(k, a). if adapter_ref a \<noteq> r then [g (adapter_ref a)] else [])
                      (adapters s))\<rparr>"
    by (rule for_each_adapter_trace) (simp add: perform_def)
  then show ?thesis
    by (simp add: concat_others other_refs_def registered_refs_def)
qed

lemma for_each_startPairing:
  "for_each_adapter
     (\<lambda>a s'. perform (StartPairing (adapter_ref a))
                (console_log (''About to call startPairing on '' @ adapter_name a) s')) s =
     s\<lparr>trace := trace s @ startPairing_effects s\<rparr>"
  unfolding startPairing_effects_def
  by (rule for_each_adapter_trace) (simp add: perform_def console_log_def)

subsection \<open>The operations of the manager, case by case\<close>

lemma addAdapter_eq:
  "addAdapter a s =
     s\<lparr>adapters := property_put (adapter_id a) (a\<lparr>adapter_name := constructor_name a\<rparr>) (adapters s),
       trace := trace s @ [Emit ''adapter-added'' (AdapterPayload (a\<lparr>adapter_name := constructor_name a\<rparr>))]\<rparr>"
  by (simp add: addAdapter_def emit_def perform_def Let_def)

lemma addNewThing_idle:
  assumes "deferredAdd s = None" "deferredRemove s = None"
  shows "addNewThing s =
    (nextDeferred s,
     s\<lparr>deferredAdd := Some (nextDeferred s), nextDeferred := Suc (nextDeferred s),
       trace := trace s @ startPairing_effects s\<rparr>)"
  using assms
  by (simp add: addNewThing_def new_Deferred_def for_each_startPairing [simplified]
      startPairing_effects_def)

lemma addNewThing_adding:
  assumes "deferredAdd s = Some d0"
  shows "addNewThing s =
    (nextDeferred s,
     s\<lparr>nextDeferred := Suc (nextDeferred s),
       trace := trace s @ [Reject (nextDeferred s) ''Add already in progress'']\<rparr>)"
  using assms
  by (simp add: addNewThing_def new_Deferred_def deferred_reject_def perform_def)

lemma addNewThing_removing:
  assumes "deferredAdd s = None" "deferredRemove s = Some d0"
  shows "addNewThing s =
    (nextDeferred s,
     s\<lparr>nextDeferred := Suc (nextDeferred s),
       trace := trace s @ [Reject (nextDeferred s) ''Remove already in progress'']\<rparr>)"
  using assms
  by (simp add: addNewThing_def new_Deferred_def deferred_reject_def perform_def)

lemma removeSomeThing_idle:
  assumes "deferredAdd s = None" "deferredRemove s = None"
  shows "removeSomeThing s =
    (nextDeferred s,
     s\<lparr>deferredRemove := Some (nextDeferred s), nextDeferred := Suc (nextDeferred s),
       trace := trace s @ map StartUnpairing (registered_refs s)\<rparr>)"
  using assms
  by (simp add: removeSomeThing_def new_Deferred_def for_each_all registered_refs_def)

lemma removeSomeThing_adding:
  assumes "deferredAdd s = Some d0"
  shows "removeSomeThing s =
    (nextDeferred s,
     s\<lparr>nextDeferred := Suc (nextDeferred s),
       trace := trace s @ [Reject (nextDeferred s) ''Add already in progress'']\<rparr>)"
  using assms
  by (simp add: removeSomeThing_def new_Deferred_def deferred_reject_def perform_def)

lemma removeSomeThing_removing:
  assumes "deferredAdd s = None" "deferredRemove s = Some d0"
  shows "removeSomeThing s =
    (nextDeferred s,
     s\<lparr>nextDeferred := Suc (nextDeferred s),
       trace := trace s @ [Reject (nextDeferred s) ''Remove already in progress'']\<rparr>)"
  using assms
  by (simp add: removeSomeThing_def new_Deferred_def deferred_reject_def perform_def)

lemma cancelAddNewThing_idle:
  "deferredAdd s = None \<Longrightarrow> cancelAddNewThing s = s"
  by (simp add: cancelAddNewThing_def)

lemma cancelAddNewThing_adding:
  "deferredAdd s = Some d \<Longrightarrow>
   cancelAddNewThing s =
     s\<lparr>deferredAdd := None,
       trace := trace s @ map CancelPairing (registered_refs s) @
                [Reject d ''addNewThing cancelled'']\<rparr>"
  by (simp add: cancelAddNewThing_def for_each_all deferred_reject_def perform_def)

lemma cancelRemoveSomeThing_idle:
  "deferredRemove s = None \<Longrightarrow> cancelRemoveSomeThing s = s"
  by (simp add: cancelRemoveSomeThing_def)

lemma cancelRemoveSomeThing_removing:
  "deferredRemove s = Some d \<Longrightarrow>
   cancelRemoveSomeThing s =
     s\<lparr>deferredRemove := None,
       trace := trace s @ map CancelUnpairing (registered_refs s) @
                [Reject d ''removeSomeThing cancelled'']\<rparr>"
  by (simp add: cancelRemoveSomeThing_def for_each_all deferred_reject_def perform_def)

lemma handleDeviceAdded_idle:
  "deferredAdd s = None \<Longrightarrow>
   handleDeviceAdded dev s =
     s\<lparr>devices := property_put (device_id dev) dev (devices s),
       trace := trace s @ [Emit ''thing-added'' (ThingPayload (getThing_of dev))]\<rparr>"
  by (simp add: handleDeviceAdded_def emit_def perform_def)

lemma handleDeviceAdded_adding:
  "deferredAdd s = Some d \<Longrightarrow>
   handleDeviceAdded dev s =
     s\<lparr>devices := property_put (device_id dev) dev (devices s),
       deferredAdd := None,
       trace := trace s @ [Emit ''thing-added'' (ThingPayload (getThing_of dev))] @
                map CancelPairing (other_refs (device_adapter dev) s) @
                [ConsoleLog ''AdapterManager: About to resolve deferredAdd'',
                 Resolve d (getThing_of dev)]\<rparr>"
  by (simp add: handleDeviceAdded_def emit_def perform_def for_each_others console_log_def
      deferred_resolve_def other_refs_def registered_refs_def Let_def)

lemma handleDeviceRemoved_idle:
  "deferredRemove s = None \<Longrightarrow>
   handleDeviceRemoved dev s =
     s\<lparr>devices := property_delete (device_id dev) (devices s),
       trace := trace s @ [Emit ''thing-removed'' (ThingPayload (getThing_of dev)),
                           ConsoleLog ''AdapterManager: handleDeviceRemoved'']\<rparr>"
  by (simp add: handleDeviceRemoved_def emit_def perform_def console_log_def)

lemma handleDeviceRemoved_removing:
  "deferredRemove s = Some d \<Longrightarrow>
   handleDeviceRemoved dev s =
     s\<lparr>devices := property_delete (device_id dev) (devices s),
       deferredRemove := None,
       trace := trace s @ [Emit ''thing-removed'' (ThingPayload (getThing_of dev)),
                           ConsoleLog ''AdapterManager: handleDeviceRemoved''] @
                map CancelUnpairing (other_refs (device_adapter dev) s) @
                [ConsoleLog ''AdapterManager: About to resolve deferredRemove'',
                 Resolve d (getThing_of dev)]\<rparr>"
  by (simp add: handleDeviceRemoved_def emit_def perform_def for_each_others console_log_def
      deferred_resolve_def other_refs_def registered_refs_def Let_def)


subsection \<open>The registries as plain objects\<close>

lemma map_of_insert_between:
  "k \<notin> fst ` set ys \<Longrightarrow> map_of (ys @ (k, v) # zs) = (map_of (ys @ zs))(k \<mapsto> v)"
  by (induction ys) (auto simp: fun_upd_twist)

lemma set_insert_between: "set (ys @ (k, v) # zs) = insert (k, v) (set (ys @ zs))"
  by auto

lemma map_of_property_put: "map_of (property_put k v xs) = (map_of xs)(k \<mapsto> v)"
proof (cases "k \<in> fst ` set xs")
  case True
  then show ?thesis by (simp add: property_put_def update_conv')
next
  case False
  show ?thesis
  proof (cases "array_index k")
    case None
    with False show ?thesis
      using map_of_insert_between [of k xs v "[]"] by (simp add: property_put_def)
  next
    case (Some i)
    have "k \<notin> fst ` set (takeWhile (index_below i) xs)"
      using False by (auto dest: set_takeWhileD)
    then have "map_of (takeWhile (index_below i) xs @ (k, v) # dropWhile (index_below i) xs) =
        (map_of (takeWhile (index_below i) xs @ dropWhile (index_below i) xs))(k \<mapsto> v)"
      by (rule map_of_insert_between)
    with False Some show ?thesis by (simp add: property_put_def)
  qed
qed

lemma property_get_put_same: "property_get (property_put k v xs) k = Object v"
  by (simp add: property_get_def map_of_property_put)

lemma set_property_put: "set (property_put k v xs) \<subseteq> insert (k, v) (set xs)"
proof (cases "k \<in> fst ` set xs")
  case True
  have "p = (k, v) \<or> p \<in> set xs" if "p \<in> set (AList.update k v xs)" for p
    using that by (induction xs) (auto split: if_splits)
  with True show ?thesis by (auto simp: property_put_def)
next
  case False
  have "set (takeWhile P xs @ (k, v) # dropWhile P xs) = insert (k, v) (set xs)" for P
    using set_insert_between [of "takeWhile P xs" k v "dropWhile P xs"] by simp
  with False show ?thesis by (auto simp: property_put_def split: option.splits)
qed

lemma in_set_update:
  "(k', a) \<in> set (property_put k v xs) \<Longrightarrow> (k', a) = (k, v) \<or> (k', a) \<in> set xs"
  using set_property_put [of k v xs] by auto

lemma property_get_delete_same:
  "property_get (property_delete k xs) k = (if k \<in> set Object_prototype then Builtin k else Undefined)"
  by (simp add: property_get_def property_delete_def delete_conv')

lemma map_of_absent: "i \<notin> fst ` set xs \<Longrightarrow> map_of xs i = None"
  by (simp add: map_of_eq_None_iff)

lemma adapters_handleDeviceAdded: "adapters (handleDeviceAdded dev s) = adapters s"
  by (cases "deferredAdd s") (simp_all add: handleDeviceAdded_idle handleDeviceAdded_adding)

lemma adapters_handleDeviceRemoved: "adapters (handleDeviceRemoved dev s) = adapters s"
  by (cases "deferredRemove s")
    (simp_all add: handleDeviceRemoved_idle handleDeviceRemoved_removing)

lemma adapters_cancelAddNewThing: "adapters (cancelAddNewThing s) = adapters s"
  by (cases "deferredAdd s") (simp_all add: cancelAddNewThing_idle cancelAddNewThing_adding)

lemma adapters_cancelRemoveSomeThing: "adapters (cancelRemoveSomeThing s) = adapters s"
  by (cases "deferredRemove s")
    (simp_all add: cancelRemoveSomeThing_idle cancelRemoveSomeThing_removing)

lemma adapters_addNewThing: "adapters (snd (addNewThing s)) = adapters s"
  by (cases "deferredAdd s"; cases "deferredRemove s")
    (simp_all add: addNewThing_idle addNewThing_adding addNewThing_removing)

lemma adapters_removeSomeThing: "adapters (snd (removeSomeThing s)) = adapters s"
  by (cases "deferredAdd s"; cases "deferredRemove s")
    (simp_all add: removeSomeThing_idle removeSomeThing_adding removeSomeThing_removing)

lemma adapters_step:
  "set (adapters (step c s)) \<subseteq>
     set (adapters s) \<union>
     (case c of AddAdapter a \<Rightarrow> {(adapter_id a, a\<lparr>adapter_name := constructor_name a\<rparr>)}
      | _ \<Rightarrow> {})"
  by (cases c)
    (auto simp: adapters_handleDeviceAdded adapters_handleDeviceRemoved
      adapters_cancelAddNewThing adapters_cancelRemoveSomeThing adapters_addNewThing
      adapters_removeSomeThing addAdapter_eq dest: in_set_update)

subsection \<open>Settlements and the session invariant\<close>

lemma settlements_append: "settlements (xs @ ys) = settlements xs @ settlements ys"
  by (induction xs rule: settlements.induct) simp_all

lemma settlements_map_quiet:
  assumes "\<And>r. settlements [g r] = []"
  shows "settlements (map g rs) = []"
proof (induction rs)
  case Nil
  show ?case by simp
next
  case (Cons r rs)
  have "settlements (map g (r # rs)) = settlements ([g r] @ map g rs)" by simp
  also have "\<dots> = []" unfolding settlements_append by (simp add: assms Cons)
  finally show ?case .
qed

lemma settlements_concat_quiet:
  "(\<And>x. x \<in> set xs \<Longrightarrow> settlements (f x) = []) \<Longrightarrow> settlements (concat (map f xs)) = []"
  by (induction xs) (simp_all add: settlements_append)

lemma settlements_startPairing: "settlements (startPairing_effects s) = []"
  unfolding startPairing_effects_def by (rule settlements_concat_quiet) (simp split: prod.splits)

lemma promise_slot_append:
  "promise_slot (xs @ ys) d =
     (if d \<in> set (settlements xs) then promise_slot xs d else promise_slot ys d)"
  by (induction xs d rule: promise_slot.induct) auto

lemma promise_slot_fresh:
  "d \<notin> set (settlements es) \<Longrightarrow> promise_slot (es @ [Reject d reason]) d = Rejected reason"
  by (simp add: promise_slot_append)

lemma promise_slot_resolve:
  "d \<notin> set (settlements es) \<Longrightarrow> d \<notin> set (settlements fs) \<Longrightarrow>
   promise_slot (es @ fs @ [Resolve d t]) d = Resolved t"
  by (simp add: promise_slot_append)

lemma session_inv_new: "session_inv AdapterManager_new"
  by (simp add: session_inv_def AdapterManager_new_def)

lemma session_inv_addAdapter: "session_inv s \<Longrightarrow> session_inv (addAdapter a s)"
  by (simp add: session_inv_def addAdapter_eq settlements_append)

lemma session_inv_addNewThing: "session_inv s \<Longrightarrow> session_inv (snd (addNewThing s))"
proof (cases "deferredAdd s")
  case None
  assume inv: "session_inv s"
  show ?thesis
  proof (cases "deferredRemove s")
    case n: None
    show ?thesis using inv None n
      by (auto simp: addNewThing_idle [OF None n] session_inv_def settlements_append
          settlements_startPairing less_Suc_eq)
  next
    case (Some d0)
    show ?thesis using inv Some None
      by (auto simp: addNewThing_removing [OF None Some] session_inv_def settlements_append
          less_Suc_eq)
  qed
next
  case (Some d0)
  assume inv: "session_inv s"
  show ?thesis using inv Some
    by (auto simp: addNewThing_adding [OF Some] session_inv_def settlements_append less_Suc_eq)
qed

lemma session_inv_removeSomeThing: "session_inv s \<Longrightarrow> session_inv (snd (removeSomeThing s))"
proof (cases "deferredAdd s")
  case None
  assume inv: "session_inv s"
  show ?thesis
  proof (cases "deferredRemove s")
    case n: None
    show ?thesis using inv None n
      by (auto simp: removeSomeThing_idle [OF None n] session_inv_def settlements_append
          settlements_map_quiet less_Suc_eq)
  next
    case (Some d0)
    show ?thesis using inv Some None
      by (auto simp: removeSomeThing_removing [OF None Some] session_inv_def settlements_append
          less_Suc_eq)
  qed
next
  case (Some d0)
  assume inv: "session_inv s"
  show ?thesis using inv Some
    by (auto simp: removeSomeThing_adding [OF Some] session_inv_def settlements_append less_Suc_eq)
qed

lemma session_inv_cancelAddNewThing: "session_inv s \<Longrightarrow> session_inv (cancelAddNewThing s)"
  by (cases "deferredAdd s")
    (auto simp: cancelAddNewThing_idle cancelAddNewThing_adding session_inv_def
      settlements_append settlements_map_quiet)

lemma session_inv_cancelRemoveSomeThing:
  "session_inv s \<Longrightarrow> session_inv (cancelRemoveSomeThing s)"
  by (cases "deferredRemove s")
    (auto simp: cancelRemoveSomeThing_idle cancelRemoveSomeThing_removing session_inv_def
      settlements_append settlements_map_quiet)

lemma session_inv_handleDeviceAdded: "session_inv s \<Longrightarrow> session_inv (handleDeviceAdded dev s)"
  by (cases "deferredAdd s")
    (auto simp: handleDeviceAdded_idle handleDeviceAdded_adding session_inv_def
      settlements_append settlements_map_quiet)

lemma session_inv_handleDeviceRemoved:
  "session_inv s \<Longrightarrow> session_inv (handleDeviceRemoved dev s)"
  by (cases "deferredRemove s")
    (auto simp: handleDeviceRemoved_idle handleDeviceRemoved_removing session_inv_def
      settlements_append settlements_map_quiet)

lemma session_inv_step: "session_inv s \<Longrightarrow> session_inv (step c s)"
  by (cases c)
    (simp_all add: session_inv_addAdapter session_inv_addNewThing session_inv_removeSomeThing
      session_inv_cancelAddNewThing session_inv_cancelRemoveSomeThing
      session_inv_handleDeviceAdded session_inv_handleDeviceRemoved)

lemma session_inv_fold: "session_inv s \<Longrightarrow> session_inv (fold step cs s)"
  by (induction cs arbitrary: s) (simp_all add: session_inv_step)

lemma session_inv_run: "session_inv (run cs AdapterManager_new)"
  unfolding run_def by (rule session_inv_fold [OF session_inv_new])

subsection \<open>The invariant of the Z-Wave adapter\<close>

lemma gateway_snoc:
  "gateway classify r comName (evs @ [e]) = fire classify e (gateway classify r comName evs)"
  by (simp add: gateway_def)

lemma zwave_inv_new: "zwave_inv r [] (gateway classify r comName [])"
  by (simp add: zwave_inv_def gateway_def ZWaveAdapter_new_def Adapter_new_def
      AdapterManager_new_def perform_def adapter.defs zwave_adapter.defs)

lemma zwave_inv_fire:
  assumes inv: "zwave_inv r evs g"
    and foreign: "\<And>a. e = Manager (AddAdapter a) \<Longrightarrow> adapter_ref a \<noteq> r"
  shows "zwave_inv r (evs @ [e]) (fire classify e g)"
proof -
  obtain zw s where g: "g = (zw, s)" by (cases g)
  show ?thesis
  proof (cases e)
    case (Manager c)
    have sub: "set (adapters (step c s)) \<subseteq>
     set (adapters s) \<union>
     (case c of AddAdapter a \<Rightarrow> {(adapter_id a, a\<lparr>adapter_name := constructor_name a\<rparr>)}
      | _ \<Rightarrow> {})" by (rule adapters_step)
    have new: "adapter_ref a \<noteq> r \<or> (k, a) \<in> set (adapters s)"
      if "(k, a) \<in> set (adapters (step c s))" for k a
      using that sub foreign Manager by (cases c) auto
    show ?thesis
      using inv new unfolding zwave_inv_def g Manager by (fastforce)
  next
    case (ZWave z)
    show ?thesis
    proof (cases z)
      case (DriverReady h)
      show ?thesis
        using inv unfolding zwave_inv_def g ZWave DriverReady
        by (auto simp: driverReady_def Let_def addAdapter_eq console_log_def perform_def
            adapter.defs dest!: in_set_update)
    next
      case DriverFailed
      show ?thesis
        using inv unfolding zwave_inv_def g ZWave DriverFailed
        by (auto simp: driverFailed_def console_log_def perform_def)
    next
      case (DeviceAdded node)
      show ?thesis
        using inv unfolding zwave_inv_def g ZWave DeviceAdded
        by (auto simp: ZWaveAdapter_handleDeviceAdded_def Adapter_handleDeviceAdded_def Let_def
            adapters_handleDeviceAdded perform_def)
    next
      case (DeviceRemoved node)
      show ?thesis
        using inv unfolding zwave_inv_def g ZWave DeviceRemoved
        by (auto simp: ZWaveAdapter_handleDeviceRemoved_def Adapter_handleDeviceRemoved_def
            Let_def adapters_handleDeviceRemoved)
    qed
  qed
qed

lemma zwave_inv_gateway:
  "(\<And>a. Manager (AddAdapter a) \<in> set evs \<Longrightarrow> adapter_ref a \<noteq> r) \<Longrightarrow>
   zwave_inv r evs (gateway classify r comName evs)"
proof (induction evs rule: rev_induct)
  case Nil
  show ?case by (rule zwave_inv_new)
next
  case (snoc e evs)
  have "zwave_inv r evs (gateway classify r comName evs)"
    by (rule snoc.IH) (simp add: snoc.prems)
  then show ?case
    unfolding gateway_snoc by (rule zwave_inv_fire) (simp add: snoc.prems)
qed

subsection \<open>The Smart Plug, request and response\<close>

lemma turnOn_in_flight:
  "turnOn p = plug_perform (Fetch (put_on True ((showTransition p)\<lparr>properties_on := JNull\<rparr>)))
                ((showTransition p)\<lparr>properties_on := JNull\<rparr>)"
  "properties_on (turnOn p) = JNull"
  "''on'' \<notin> set (classList (turnOn p))" "''off'' \<notin> set (classList (turnOn p))"
  "plug_effects (turnOn p) =
     plug_effects p @ [Fetch (put_on True ((showTransition p)\<lparr>properties_on := JNull\<rparr>))]"
  "powerLabel (turnOn p) = powerLabel p"
  by (simp_all add: turnOn_def showTransition_def classList_remove_def plug_perform_def Let_def)

lemma turnOff_in_flight:
  "turnOff p = plug_perform (Fetch (put_on False ((showTransition p)\<lparr>properties_on := JNull\<rparr>)))
                ((showTransition p)\<lparr>properties_on := JNull\<rparr>)"
  "properties_on (turnOff p) = JNull"
  "''on'' \<notin> set (classList (turnOff p))" "''off'' \<notin> set (classList (turnOff p))"
  "plug_effects (turnOff p) =
     plug_effects p @ [Fetch (put_on False ((showTransition p)\<lparr>properties_on := JNull\<rparr>))]"
  "powerLabel (turnOff p) = powerLabel p"
  by (simp_all add: turnOff_def showTransition_def classList_remove_def plug_perform_def Let_def)

lemma turnOn_settled_cases:
  assumes "properties_on q = JNull"
  shows "properties_on (turnOn_settled outcome q) \<noteq> JNull \<longrightarrow>
           outcome = Response 200 \<and> properties_on (turnOn_settled outcome q) = JBool True"
    and "powerLabel q \<noteq> None \<longrightarrow>
           properties_on (turnOn_settled (Response 200) q) = JBool True \<and>
           ''on'' \<in> set (classList (turnOn_settled (Response 200) q)) \<and>
           ''off'' \<notin> set (classList (turnOn_settled (Response 200) q))"
    and "status \<noteq> 200 \<longrightarrow>
           turnOn_settled (Response status) q =
             plug_perform (Console_error (''Status '' @ number_toString 10 status @
                                          '' trying to turn on plug'')) q"
    and "turnOn_settled (Failed e) q =
           plug_perform (Console_error_with ''Error trying to turn on plug: '' e) q"
  using assms
  by (auto simp: turnOn_settled_def turnOn_then_def showOn_def showPower_def set_powerLabel_def
      classList_add_def classList_remove_def plug_perform_def Let_def
      split: fetch_outcome.splits option.splits if_splits prod.splits)

lemma turnOff_settled_cases:
  assumes "properties_on q = JNull"
  shows "properties_on (turnOff_settled outcome q) \<noteq> JNull \<longrightarrow>
           outcome = Response 200 \<and> properties_on (turnOff_settled outcome q) = JBool False"
    and "powerLabel q \<noteq> None \<longrightarrow>
           properties_on (turnOff_settled (Response 200) q) = JBool False \<and>
           ''off'' \<in> set (classList (turnOff_settled (Response 200) q)) \<and>
           ''on'' \<notin> set (classList (turnOff_settled (Response 200) q))"
    and "status \<noteq> 200 \<longrightarrow>
           turnOff_settled (Response status) q =
             plug_perform (Console_error (''Status '' @ number_toString 10 status @
                                          '' trying to turn off switch'')) q"
    and "turnOff_settled (Failed e) q =
           plug_perform (Console_error_with ''Error trying to turn off switch: '' e) q"
  using assms
  by (auto simp: turnOff_settled_def turnOff_then_def showOff_def set_powerLabel_def
      classList_add_def classList_remove_def plug_perform_def Let_def
      split: fetch_outcome.splits option.splits if_splits prod.splits)

subsection \<open>The running example, evaluated\<close>

lemma hex_c0ffee: "number_toString 16 12648430 = ''c0ffee''"
  by (simp add: number_toString.simps digit_char_def)

lemmas manager_eval =
  run_def AdapterManager_new_def addAdapter_def addNewThing_def removeSomeThing_def
  cancelAddNewThing_def cancelRemoveSomeThing_def handleDeviceAdded_def handleDeviceRemoved_def
  for_each_adapter_def new_Deferred_def deferred_reject_def deferred_resolve_def perform_def
  emit_def console_log_def getThing_of_def getAdapter_def getDevice_def getThing_def
  property_get_def property_put_def property_delete_def array_index_def index_below_def
  decimal_value_def digit_value_def
  Object_prototype_def registered_refs_def other_refs_def Let_def

lemmas example_defs = adapterA_def adapterB_def plug7_def adding_def removing_def

lemmas zwave_eval =
  gateway_def ZWaveAdapter_new_def Adapter_new_def driverReady_def driverFailed_def
  ZWaveAdapter_handleDeviceAdded_def ZWaveAdapter_handleDeviceRemoved_def
  Adapter_handleDeviceAdded_def Adapter_handleDeviceRemoved_def adapter.defs device.defs
  zwave_adapter.defs zwave_node.defs

lemmas plug_eval =
  turnOn_def turnOff_def turnOn_settled_def turnOff_settled_def turnOn_then_def turnOff_then_def
  showOn_def showOff_def showPower_def showTransition_def set_powerLabel_def classList_add_def
  classList_remove_def plug_perform_def put_on_def truthy_def jsval_toString_def Let_def

lemma adding_facts:
  "deferredAdd adding = Some 0" "deferredRemove adding = None"
  "other_refs (device_adapter plug7) adding = [12]"
  "registered_refs adding = [11, 12]"
  "settlements (trace adding) = []"
  by (simp_all add: example_defs manager_eval)

lemma removing_facts:
  "deferredRemove removing = Some 0" "deferredAdd removing = None"
  "other_refs (device_adapter plug7) removing = [12]"
  "registered_refs removing = [11, 12]"
  "settlements (trace removing) = []"
  "getDevice removing ''plug-7'' = Object plug7"
  by (simp_all add: example_defs manager_eval)


section \<open>The claims\<close>

subsection \<open>C1: mutual exclusion of pairing sessions\<close>

text \<open>
  Claim C1. After every sequence of \<open>addAdapter\<close>, \<open>addNewThing\<close>, \<open>removeSomeThing\<close>,
  \<open>cancelAddNewThing\<close>, \<open>cancelRemoveSomeThing\<close>, \<open>handleDeviceAdded\<close> and
  \<open>handleDeviceRemoved\<close> calls on a new AdapterManager, at most one of \<open>deferredAdd\<close> and
  \<open>deferredRemove\<close> is set. While one is set, both \<open>addNewThing\<close> and \<open>removeSomeThing\<close>
  return a fresh future that is already rejected, with the reason
  \<open>'Add already in progress'\<close> or \<open>'Remove already in progress'\<close> (the code's form of
  the operation-in-progress error); the only other change is the trace entry of that
  rejection, so no adapter is asked to start pairing or unpairing and the active session
  is as it was.
\<close>

theorem pairing_mutual_exclusion:
  "let s = run cs AdapterManager_new;
       d = nextDeferred s;
       rejected = (\<lambda>reason. (d, s\<lparr>nextDeferred := Suc d, trace := trace s @ [Reject d reason]\<rparr>))
   in (deferredAdd s = None \<or> deferredRemove s = None) \<and>
      (deferredAdd s \<noteq> None \<longrightarrow>
         addNewThing s = rejected ''Add already in progress'' \<and>
         removeSomeThing s = rejected ''Add already in progress'' \<and>
         promise_slot (trace (snd (addNewThing s))) d = Rejected ''Add already in progress'' \<and>
         promise_slot (trace (snd (removeSomeThing s))) d = Rejected ''Add already in progress'') \<and>
      (deferredRemove s \<noteq> None \<longrightarrow>
         addNewThing s = rejected ''Remove already in progress'' \<and>
         removeSomeThing s = rejected ''Remove already in progress'' \<and>
         promise_slot (trace (snd (addNewThing s))) d = Rejected ''Remove already in progress'' \<and>
         promise_slot (trace (snd (removeSomeThing s))) d = Rejected ''Remove already in progress'')"
proof -
  define s where "s = run cs AdapterManager_new"
  have inv: "session_inv s" unfolding s_def by (rule session_inv_run)
  have one: "deferredAdd s = None \<or> deferredRemove s = None"
    using inv by (simp add: session_inv_def)
  have fresh: "nextDeferred s \<notin> set (settlements (trace s))"
    using inv by (auto simp: session_inv_def)
  have adding: "addNewThing s = (nextDeferred s, s\<lparr>nextDeferred := Suc (nextDeferred s),
         trace := trace s @ [Reject (nextDeferred s) ''Add already in progress'']\<rparr>) \<and>
       removeSomeThing s = (nextDeferred s, s\<lparr>nextDeferred := Suc (nextDeferred s),
         trace := trace s @ [Reject (nextDeferred s) ''Add already in progress'']\<rparr>)"
    if "deferredAdd s \<noteq> None"
  proof -
    from that obtain d0 where d0: "deferredAdd s = Some d0" by auto
    show ?thesis by (simp only: addNewThing_adding [OF d0] removeSomeThing_adding [OF d0])
  qed
  have removing: "addNewThing s = (nextDeferred s, s\<lparr>nextDeferred := Suc (nextDeferred s),
         trace := trace s @ [Reject (nextDeferred s) ''Remove already in progress'']\<rparr>) \<and>
       removeSomeThing s = (nextDeferred s, s\<lparr>nextDeferred := Suc (nextDeferred s),
         trace := trace s @ [Reject (nextDeferred s) ''Remove already in progress'']\<rparr>)"
    if "deferredRemove s \<noteq> None"
  proof -
    from that obtain d0 where d0: "deferredRemove s = Some d0" by auto
    from that one have n: "deferredAdd s = None" by auto
    show ?thesis by (simp only: addNewThing_removing [OF n d0] removeSomeThing_removing [OF n d0])
  qed
  have slot: "promise_slot (trace s @ [Reject (nextDeferred s) reason]) (nextDeferred s) =
      Rejected reason" for reason
    by (rule promise_slot_fresh [OF fresh])
  show ?thesis
    unfolding Let_def s_def [symmetric]
    using one adding removing slot by simp
qed

theorem pairing_mutual_exclusion_witness:
  "deferredAdd adding = Some 0 \<and> deferredRemove adding = None \<and> nextDeferred adding = 1 \<and>
   addNewThing adding =
     (nextDeferred adding,
      adding\<lparr>nextDeferred := Suc (nextDeferred adding),
             trace := trace adding @
                      [Reject (nextDeferred adding) ''Add already in progress'']\<rparr>) \<and>
   removeSomeThing adding =
     (nextDeferred adding,
      adding\<lparr>nextDeferred := Suc (nextDeferred adding),
             trace := trace adding @
                      [Reject (nextDeferred adding) ''Add already in progress'']\<rparr>) \<and>
   promise_slot (trace (snd (removeSomeThing adding))) (nextDeferred adding) =
     Rejected ''Add already in progress''"
proof -
  have nxt: "nextDeferred adding = 1"
    by (simp add: example_defs manager_eval)
  have ne: "deferredAdd adding \<noteq> None" by (simp add: adding_facts)
  note busy = pairing_mutual_exclusion [of "[AddAdapter adapterA, AddAdapter adapterB, AddNewThing]",
      unfolded Let_def, folded adding_def]
  from busy ne
  have a: "addNewThing adding =
     (nextDeferred adding,
      adding\<lparr>nextDeferred := Suc (nextDeferred adding),
             trace := trace adding @
                      [Reject (nextDeferred adding) ''Add already in progress'']\<rparr>)"
    and r: "removeSomeThing adding =
     (nextDeferred adding,
      adding\<lparr>nextDeferred := Suc (nextDeferred adding),
             trace := trace adding @
                      [Reject (nextDeferred adding) ''Add already in progress'']\<rparr>)"
    and p: "promise_slot (trace (snd (removeSomeThing adding))) (nextDeferred adding) =
     Rejected ''Add already in progress''"
    by blast+
  show ?thesis
    by (intro conjI adding_facts(1,2) nxt a r p)
qed

subsection \<open>C2: a device is added\<close>



subsection \<open>C3: registering an adapter\<close>

text \<open>
  Claim C3 says that \<open>addAdapter\<close> fails with a DuplicateIdError for an id already
  present and leaves the existing registration unchanged. The code has no such check:
  with adapter A registered, registering another adapter object with the id of A succeeds,
  the id now leads to the second adapter, and \<open>adapter-added\<close> is emitted for it.
\<close>

theorem addAdapter_duplicate_id_counterexample:
  "adapter_id adapterA2 = adapter_id adapterA \<and>
   getAdapter (addAdapter adapterA AdapterManager_new) (adapter_id adapterA2) =
     Object (adapterA\<lparr>adapter_name := ''ZWaveAdapter''\<rparr>) \<and>
   getAdapter (addAdapter adapterA2 (addAdapter adapterA AdapterManager_new)) (adapter_id adapterA2) =
     Object (adapterA2\<lparr>adapter_name := ''MockAdapter''\<rparr>) \<and>
   getAdapter (addAdapter adapterA2 (addAdapter adapterA AdapterManager_new)) (adapter_id adapterA2) \<noteq>
     getAdapter (addAdapter adapterA AdapterManager_new) (adapter_id adapterA2) \<and>
   trace (addAdapter adapterA2 (addAdapter adapterA AdapterManager_new)) =
     trace (addAdapter adapterA AdapterManager_new) @
     [Emit ''adapter-added'' (AdapterPayload (adapterA2\<lparr>adapter_name := ''MockAdapter''\<rparr>))]"
  by (simp add: adapterA_def adapterA2_def manager_eval)

text \<open>
  Claim C3, as amended. For every adapter, whether its id is fresh or already present in
  the registry, \<open>addAdapter(adapter)\<close> registers it under its id, so that an adapter
  registered under that id before is replaced and nothing fails, and emits
  \<open>adapter-added\<close> carrying that adapter (with its name set to its constructor's name).
\<close>

theorem addAdapter_registers_or_replaces:
  "let a' = a\<lparr>adapter_name := constructor_name a\<rparr>;
       s' = addAdapter a s
   in getAdapter s' (adapter_id a) = Object a' \<and>
      trace s' = trace s @ [Emit ''adapter-added'' (AdapterPayload a')]"
  by (simp add: addAdapter_eq getAdapter_def property_get_put_same Let_def)

theorem addAdapter_registers_or_replaces_witness:
  "getAdapter (addAdapter adapterA AdapterManager_new) (adapter_id adapterA2) =
     Object (adapterA\<lparr>adapter_name := constructor_name adapterA\<rparr>) \<and>
   getAdapter (addAdapter adapterA2 (addAdapter adapterA AdapterManager_new)) (adapter_id adapterA2) =
     Object (adapterA2\<lparr>adapter_name := constructor_name adapterA2\<rparr>) \<and>
   trace (addAdapter adapterA2 (addAdapter adapterA AdapterManager_new)) =
     trace (addAdapter adapterA AdapterManager_new) @
     [Emit ''adapter-added''
        (AdapterPayload (adapterA2\<lparr>adapter_name := constructor_name adapterA2\<rparr>))]"
proof -
  have same: "adapter_id adapterA2 = adapter_id adapterA"
    by (simp add: adapterA_def adapterA2_def)
  note t1 = addAdapter_registers_or_replaces [of adapterA AdapterManager_new, unfolded Let_def]
  note t2 = addAdapter_registers_or_replaces [of adapterA2 "addAdapter adapterA AdapterManager_new",
      unfolded Let_def]
  from t1 have a: "getAdapter (addAdapter adapterA AdapterManager_new) (adapter_id adapterA2) =
     Object (adapterA\<lparr>adapter_name := constructor_name adapterA\<rparr>)"
    unfolding same by (rule conjunct1)
  show ?thesis by (intro conjI a t2 [THEN conjunct1] t2 [THEN conjunct2])
qed

subsection \<open>C4: a device is removed\<close>

text \<open>
  What \<open>handleDeviceRemoved(device)\<close> does, for every device and state. The own property
  of the device's id is deleted, so that a later \<open>getDevice(device.id)\<close> finds nothing
  when the id names no member of \<open>Object.prototype\<close>. \<open>thing-removed\<close> is emitted with
  the device's thing before the call returns; with a remove session active the session is
  cleared, \<open>cancelUnpairing()\<close> is called on every registered adapter that is not
  \<open>device.adapter\<close>, and the pending future is resolved with the removed thing.
\<close>

lemma handleDeviceRemoved_effects:
  "let s' = handleDeviceRemoved dev s;
       t = getThing_of dev;
       removed = Emit ''thing-removed'' (ThingPayload t)
   in (device_id dev \<notin> set Object_prototype \<longrightarrow> getDevice s' (device_id dev) = Undefined) \<and>
      deferredRemove s' = None \<and>
      (case deferredRemove s of
         None \<Rightarrow> trace s' = trace s @ [removed, ConsoleLog ''AdapterManager: handleDeviceRemoved'']
       | Some d \<Rightarrow>
           trace s' = trace s @ [removed, ConsoleLog ''AdapterManager: handleDeviceRemoved''] @
                      map CancelUnpairing (other_refs (device_adapter dev) s) @
                      [ConsoleLog ''AdapterManager: About to resolve deferredRemove'',
                       Resolve d t] \<and>
           (d \<notin> set (settlements (trace s)) \<longrightarrow> promise_slot (trace s') d = Resolved t))"
proof (cases "deferredRemove s")
  case None
  show ?thesis
    by (simp add: handleDeviceRemoved_idle [OF None] None getDevice_def property_get_delete_same)
next
  case (Some d)
  have slot: "promise_slot (trace s @
        (Emit ''thing-removed'' (ThingPayload (getThing_of dev)) #
         ConsoleLog ''AdapterManager: handleDeviceRemoved'' #
         map CancelUnpairing (other_refs (device_adapter dev) s) @
         [ConsoleLog ''AdapterManager: About to resolve deferredRemove'']) @
         [Resolve d (getThing_of dev)]) d = Resolved (getThing_of dev)"
    if "d \<notin> set (settlements (trace s))"
    by (rule promise_slot_resolve [OF that]) (simp add: settlements_append settlements_map_quiet)
  show ?thesis
    using slot
    by (simp add: handleDeviceRemoved_removing [OF Some] Some getDevice_def property_get_delete_same)
qed

text \<open>
  Claim C4 says that after every \<open>handleDeviceRemoved(device)\<close> the lookup
  \<open>getDevice(device.id)\<close> returns a not-found signal. The code run on a device whose id is
  \<open>'toString'\<close>, added and then removed: the registry has no device left, and
  \<open>getDevice('toString')\<close> returns the function that \<open>this.devices\<close> inherits under that
  name, on which \<open>getThing('toString')\<close> throws a TypeError.
\<close>

theorem handleDeviceRemoved_inherited_id_still_found:
  "getDevice (handleDeviceAdded toString_device adding) (device_id toString_device) =
     Object toString_device \<and>
   devices (handleDeviceRemoved toString_device (handleDeviceAdded toString_device adding)) = [] \<and>
   getDevice (handleDeviceRemoved toString_device (handleDeviceAdded toString_device adding))
     (device_id toString_device) = Builtin ''toString'' \<and>
   getDevice (handleDeviceRemoved toString_device (handleDeviceAdded toString_device adding))
     (device_id toString_device) \<noteq> Undefined \<and>
   getThing (handleDeviceRemoved toString_device (handleDeviceAdded toString_device adding))
     (device_id toString_device) = Inl TypeError"
  by (simp add: toString_device_def example_defs manager_eval)

subsection \<open>C5: one resolution per session\<close>



subsection \<open>C6: cancellation\<close>



subsection \<open>C7: writes of the Smart Plug\<close>

text \<open>
  Claim C7 says that on a non-success response the property reverts to the last confirmed
  value. The code keeps no such value: a plug confirmed to be on, turned off with the
  request answered by status 500, has \<open>null\<close> as its cached value and neither \<open>on\<close>
  nor \<open>off\<close> in its class list; the failure is written to the console.
\<close>

theorem smart_plug_write_reverts_counterexample:
  "properties_on confirmed_on = JBool True \<and>
   ''on'' \<in> set (classList confirmed_on) \<and>
   properties_on (turnOff_settled (Response 500) (turnOff confirmed_on)) = JNull \<and>
   classList (turnOff_settled (Response 500) (turnOff confirmed_on)) = [''thing'', ''smart-plug''] \<and>
   powerLabel (turnOff_settled (Response 500) (turnOff confirmed_on)) = Some ''5W'' \<and>
   plug_effects (turnOff_settled (Response 500) (turnOff confirmed_on)) =
     [Fetch \<lparr>req_method = ''PUT'', req_url = Some ''/things/plug-7/properties/on'',
             req_body = [(''on'', JBool False)], req_authorization = ''Bearer token''\<rparr>,
      Console_error ''Status 500 trying to turn off switch'']"
  by (simp add: confirmed_on_def plug_eval number_toString.simps digit_char_def)

text \<open>
  Claim C7, as amended. \<open>turnOn()\<close> and \<open>turnOff()\<close> show the transition state (neither
  \<open>on\<close> nor \<open>off\<close> in the class list) and set the cached value to \<open>null\<close> before they
  issue the PUT request. The cached value leaves \<open>null\<close> only on a response of status 200,
  and then to the value written; with the power label present such a response sets the
  value and shows the confirmed state. On a response of any other status, and on a failed
  request, the only change is an error written to the console: the plug stays in the
  in-flight state and nothing is reverted.
\<close>

theorem smart_plug_write_in_flight_until_confirmed:
  "let q = turnOn p; q' = turnOff p in
     (q = plug_perform (Fetch (put_on True ((showTransition p)\<lparr>properties_on := JNull\<rparr>)))
            ((showTransition p)\<lparr>properties_on := JNull\<rparr>) \<and>
      properties_on q = JNull \<and> ''on'' \<notin> set (classList q) \<and> ''off'' \<notin> set (classList q) \<and>
      (\<forall>outcome. properties_on (turnOn_settled outcome q) \<noteq> JNull \<longrightarrow>
         outcome = Response 200 \<and> properties_on (turnOn_settled outcome q) = JBool True) \<and>
      (powerLabel p \<noteq> None \<longrightarrow>
         properties_on (turnOn_settled (Response 200) q) = JBool True \<and>
         ''on'' \<in> set (classList (turnOn_settled (Response 200) q)) \<and>
         ''off'' \<notin> set (classList (turnOn_settled (Response 200) q))) \<and>
      (\<forall>status. status \<noteq> 200 \<longrightarrow>
         turnOn_settled (Response status) q =
           plug_perform (Console_error (''Status '' @ number_toString 10 status @
                                        '' trying to turn on plug'')) q) \<and>
      (\<forall>e. turnOn_settled (Failed e) q =
         plug_perform (Console_error_with ''Error trying to turn on plug: '' e) q)) \<and>
     (q' = plug_perform (Fetch (put_on False ((showTransition p)\<lparr>properties_on := JNull\<rparr>)))
            ((showTransition p)\<lparr>properties_on := JNull\<rparr>) \<and>
      properties_on q' = JNull \<and> ''on'' \<notin> set (classList q') \<and> ''off'' \<notin> set (classList q') \<and>
      (\<forall>outcome. properties_on (turnOff_settled outcome q') \<noteq> JNull \<longrightarrow>
         outcome = Response 200 \<and> properties_on (turnOff_settled outcome q') = JBool False) \<and>
      (powerLabel p \<noteq> None \<longrightarrow>
         properties_on (turnOff_settled (Response 200) q') = JBool False \<and>
         ''off'' \<in> set (classList (turnOff_settled (Response 200) q')) \<and>
         ''on'' \<notin> set (classList (turnOff_settled (Response 200) q'))) \<and>
      (\<forall>status. status \<noteq> 200 \<longrightarrow>
         turnOff_settled (Response status) q' =
           plug_perform (Console_error (''Status '' @ number_toString 10 status @
                                        '' trying to turn off switch'')) q') \<and>
      (\<forall>e. turnOff_settled (Failed e) q' =
         plug_perform (Console_error_with ''Error trying to turn off switch: '' e) q'))"
proof -
  note on = turnOn_settled_cases [OF turnOn_in_flight(2) [of p], unfolded turnOn_in_flight(6)]
  note off = turnOff_settled_cases [OF turnOff_in_flight(2) [of p], unfolded turnOff_in_flight(6)]
  have a: "\<forall>outcome. properties_on (turnOn_settled outcome (turnOn p)) \<noteq> JNull \<longrightarrow>
         outcome = Response 200 \<and> properties_on (turnOn_settled outcome (turnOn p)) = JBool True"
    by (intro allI on(1))
  have b: "\<forall>status. status \<noteq> 200 \<longrightarrow>
         turnOn_settled (Response status) (turnOn p) =
           plug_perform (Console_error (''Status '' @ number_toString 10 status @
                                        '' trying to turn on plug'')) (turnOn p)"
    by (intro allI on(3))
  have c: "\<forall>e. turnOn_settled (Failed e) (turnOn p) =
         plug_perform (Console_error_with ''Error trying to turn on plug: '' e) (turnOn p)"
    by (intro allI on(4))
  have a': "\<forall>outcome. properties_on (turnOff_settled outcome (turnOff p)) \<noteq> JNull \<longrightarrow>
         outcome = Response 200 \<and> properties_on (turnOff_settled outcome (turnOff p)) = JBool False"
    by (intro allI off(1))
  have b': "\<forall>status. status \<noteq> 200 \<longrightarrow>
         turnOff_settled (Response status) (turnOff p) =
           plug_perform (Console_error (''Status '' @ number_toString 10 status @
                                        '' trying to turn off switch'')) (turnOff p)"
    by (intro allI off(3))
  have c': "\<forall>e. turnOff_settled (Failed e) (turnOff p) =
         plug_perform (Console_error_with ''Error trying to turn off switch: '' e) (turnOff p)"
    by (intro allI off(4))
  show ?thesis
    unfolding Let_def
    by (intro conjI a b c a' b' c' on(2) off(2) turnOn_in_flight(1-4) turnOff_in_flight(1-4))
qed

theorem smart_plug_write_in_flight_until_confirmed_witness:
  "powerLabel confirmed_on \<noteq> None \<and> (500::nat) \<noteq> 200 \<and>
   properties_on (turnOff confirmed_on) = JNull \<and>
   classList (turnOff confirmed_on) = [''thing'', ''smart-plug''] \<and>
   properties_on (turnOff_settled (Response 200) (turnOff confirmed_on)) = JBool False \<and>
   ''off'' \<in> set (classList (turnOff_settled (Response 200) (turnOff confirmed_on))) \<and>
   turnOff_settled (Response 500) (turnOff confirmed_on) =
     plug_perform (Console_error (''Status '' @ number_toString 10 500 @
                                  '' trying to turn off switch'')) (turnOff confirmed_on) \<and>
   properties_on (turnOn_settled (Response 200) (turnOn confirmed_on)) = JBool True"
proof -
  have l: "powerLabel confirmed_on \<noteq> None"
    and c: "classList (turnOff confirmed_on) = [''thing'', ''smart-plug'']"
    by (simp_all add: confirmed_on_def plug_eval)
  have n: "(500::nat) \<noteq> 200" by simp
  note t = smart_plug_write_in_flight_until_confirmed [of confirmed_on, unfolded Let_def]
  note on = t [THEN conjunct1] and off = t [THEN conjunct2]
  from off have o1: "properties_on (turnOff confirmed_on) = JNull" by (elim conjE)
  from off have "powerLabel confirmed_on \<noteq> None \<longrightarrow>
         properties_on (turnOff_settled (Response 200) (turnOff confirmed_on)) = JBool False \<and>
         ''off'' \<in> set (classList (turnOff_settled (Response 200) (turnOff confirmed_on))) \<and>
         ''on'' \<notin> set (classList (turnOff_settled (Response 200) (turnOff confirmed_on)))"
    by (elim conjE)
  with l have o2: "properties_on (turnOff_settled (Response 200) (turnOff confirmed_on)) = JBool False"
    and o3: "''off'' \<in> set (classList (turnOff_settled (Response 200) (turnOff confirmed_on)))"
    by simp_all
  from off have "\<forall>status. status \<noteq> 200 \<longrightarrow>
         turnOff_settled (Response status) (turnOff confirmed_on) =
           plug_perform (Console_error (''Status '' @ number_toString 10 status @
                                        '' trying to turn off switch'')) (turnOff confirmed_on)"
    by (elim conjE)
  then have o4: "turnOff_settled (Response 500) (turnOff confirmed_on) =
     plug_perform (Console_error (''Status '' @ number_toString 10 500 @
                                  '' trying to turn off switch'')) (turnOff confirmed_on)"
    using n by (elim allE [of _ 500] impE)
  from on have "powerLabel confirmed_on \<noteq> None \<longrightarrow>
         properties_on (turnOn_settled (Response 200) (turnOn confirmed_on)) = JBool True \<and>
         ''on'' \<in> set (classList (turnOn_settled (Response 200) (turnOn confirmed_on))) \<and>
         ''off'' \<notin> set (classList (turnOn_settled (Response 200) (turnOn confirmed_on)))"
    by (elim conjE)
  with l have o5: "properties_on (turnOn_settled (Response 200) (turnOn confirmed_on)) = JBool True"
    by simp
  show ?thesis by (intro conjI l n c o1 o2 o3 o4 o5)
qed

subsection \<open>C8: lookups of absent ids\<close>

text \<open>
  For an id that is neither a key of the registry nor the name of a member of
  \<open>Object.prototype\<close>, the lookups return \<open>undefined\<close> and \<open>setProperty\<close> returns with
  the state unchanged.
\<close>

lemma lookups_of_absent_ordinary_ids:
  "i \<notin> set Object_prototype \<Longrightarrow>
   (i \<notin> fst ` set (adapters s) \<longrightarrow> getAdapter s i = Undefined) \<and>
   (i \<notin> fst ` set (devices s) \<longrightarrow>
      getDevice s i = Undefined \<and> getThing s i = Inr None \<and>
      getProperty dev_get s i propertyName = Inr None \<and>
      setProperty dev_set s i propertyName v = Inr s)"
  using map_of_absent [of i "adapters s"] map_of_absent [of i "devices s"]
  by (auto simp: getAdapter_def getDevice_def getThing_def getProperty_def setProperty_def
      property_get_def)

text \<open>
  Claim C8 says that for every id not present in the registry the lookups return a
  not-found signal and never throw. The code run on the id \<open>'constructor'\<close>, which is a
  key of neither registry: \<open>getAdapter\<close> and \<open>getDevice\<close> return the inherited function
  of that name, and \<open>getThing\<close>, \<open>getProperty\<close> and \<open>setProperty\<close> throw a TypeError.
\<close>

theorem lookups_of_constructor_found_and_throw:
  "''constructor'' \<notin> fst ` set (adapters removing) \<and>
   ''constructor'' \<notin> fst ` set (devices removing) \<and>
   getAdapter removing ''constructor'' = Builtin ''constructor'' \<and>
   getDevice removing ''constructor'' = Builtin ''constructor'' \<and>
   getThing removing ''constructor'' = Inl TypeError \<and>
   getProperty (\<lambda>dev name. True) removing ''constructor'' ''on'' = Inl TypeError \<and>
   setProperty (\<lambda>dev name v. console_log name) removing ''constructor'' ''on'' True =
     Inl TypeError"
  by (simp add: example_defs manager_eval getProperty_def setProperty_def)

subsection \<open>C9: the Z-Wave adapter is registered only when its driver is ready\<close>

text \<open>
  Claim C9. Take a gateway with one Z-Wave adapter, constructed with the provisional id
  \<open>'???'\<close>, and any sequence of manager calls and driver notifications in which no other
  party registers that same adapter object. Then every registration of the adapter is under
  an id \<open>'zwave-' + homeId.toString(16)\<close> that a driver-ready notification gave it, and
  neither the key, nor the registered adapter's id, nor the adapter's current id is
  \<open>'???'\<close>. As long as no driver-ready notification has arrived the adapter keeps the
  provisional id and is not in the registry. The driver-failed path only logs and
  disconnects; the driver-ready path registers the adapter under its final id.
\<close>

theorem zwave_adapter_registered_only_when_ready:
  assumes "\<forall>a. Manager (AddAdapter a) \<in> set evs \<longrightarrow> adapter_ref a \<noteq> r"
  shows "case gateway classify r comName evs of
           (zw, s) \<Rightarrow>
             (\<forall>(k, a) \<in> set (adapters s).
                adapter_ref a = r \<longrightarrow>
                  k \<noteq> ''???'' \<and> adapter_id a \<noteq> ''???'' \<and> adapter_id zw \<noteq> ''???'' \<and>
                  (\<exists>h. ZWave (DriverReady h) \<in> set evs \<and>
                       k = ''zwave-'' @ number_toString 16 h)) \<and>
             ((\<forall>h. ZWave (DriverReady h) \<notin> set evs) \<longrightarrow>
                adapter_id zw = ''???'' \<and> (\<forall>(k, a) \<in> set (adapters s). adapter_ref a \<noteq> r)) \<and>
             driverFailed zw s =
               (zw, s\<lparr>trace := trace s @ [ConsoleLog ''ZWave: failed to start driver'',
                                           ZWaveDisconnect (port_comName zw)]\<rparr>) \<and>
             (\<forall>h. getAdapter (snd (driverReady h zw s)) (''zwave-'' @ number_toString 16 h) =
                    Object (adapter.truncate
                           (zw\<lparr>adapter_id := ''zwave-'' @ number_toString 16 h,
                               adapter_name := constructor_name zw\<rparr>)))"
proof -
  obtain zw s where g: "gateway classify r comName evs = (zw, s)"
    by (cases "gateway classify r comName evs")
  have "zwave_inv r evs (gateway classify r comName evs)"
    by (rule zwave_inv_gateway) (simp add: assms)
  then have inv: "zwave_inv r evs (zw, s)" by (simp add: g)
  have reg: "k \<noteq> ''???'' \<and> adapter_id a \<noteq> ''???'' \<and> adapter_id zw \<noteq> ''???'' \<and>
      (\<exists>h. ZWave (DriverReady h) \<in> set evs \<and> k = ''zwave-'' @ number_toString 16 h)"
    if "(k, a) \<in> set (adapters s)" "adapter_ref a = r" for k a
    using inv that unfolding zwave_inv_def by fastforce
  have unreg: "adapter_id zw = ''???'' \<and> (\<forall>(k, a) \<in> set (adapters s). adapter_ref a \<noteq> r)"
    if "\<forall>h. ZWave (DriverReady h) \<notin> set evs"
    using inv that unfolding zwave_inv_def by fastforce
  have failed: "driverFailed zw s =
               (zw, s\<lparr>trace := trace s @ [ConsoleLog ''ZWave: failed to start driver'',
                                           ZWaveDisconnect (port_comName zw)]\<rparr>)"
    by (simp add: driverFailed_def console_log_def perform_def)
  have ready: "getAdapter (snd (driverReady h zw s)) (''zwave-'' @ number_toString 16 h) =
                    Object (adapter.truncate
                           (zw\<lparr>adapter_id := ''zwave-'' @ number_toString 16 h,
                               adapter_name := constructor_name zw\<rparr>))" for h
    by (simp add: driverReady_def Let_def addAdapter_eq getAdapter_def property_get_put_same
        adapter.defs)
  show ?thesis
    unfolding g prod.case
  proof (intro conjI)
    show "\<forall>(k, a) \<in> set (adapters s).
                adapter_ref a = r \<longrightarrow>
                  k \<noteq> ''???'' \<and> adapter_id a \<noteq> ''???'' \<and> adapter_id zw \<noteq> ''???'' \<and>
                  (\<exists>h. ZWave (DriverReady h) \<in> set evs \<and>
                       k = ''zwave-'' @ number_toString 16 h)"
      using reg by blast
    show "(\<forall>h. ZWave (DriverReady h) \<notin> set evs) \<longrightarrow>
                adapter_id zw = ''???'' \<and> (\<forall>(k, a) \<in> set (adapters s). adapter_ref a \<noteq> r)"
      using unreg by blast
    show "driverFailed zw s =
               (zw, s\<lparr>trace := trace s @ [ConsoleLog ''ZWave: failed to start driver'',
                                           ZWaveDisconnect (port_comName zw)]\<rparr>)"
      by (rule failed)
    show "\<forall>h. getAdapter (snd (driverReady h zw s)) (''zwave-'' @ number_toString 16 h) =
                    Object (adapter.truncate
                           (zw\<lparr>adapter_id := ''zwave-'' @ number_toString 16 h,
                               adapter_name := constructor_name zw\<rparr>))"
      using ready by blast
  qed
qed

theorem zwave_adapter_registered_only_when_ready_witness:
  "adapter_id (fst (gateway (\<lambda>n. n) 11 ''/dev/ttyACM0''
      [Manager (AddAdapter adapterB), ZWave DriverFailed])) = ''???'' \<and>
   11 \<notin> (\<lambda>(k, a). adapter_ref a) ` set (adapters (snd (gateway (\<lambda>n. n) 11 ''/dev/ttyACM0''
      [Manager (AddAdapter adapterB), ZWave DriverFailed]))) \<and>
   map fst (adapters (snd (gateway (\<lambda>n. n) 11 ''/dev/ttyACM0''
      [Manager (AddAdapter adapterB), ZWave DriverFailed, ZWave (DriverReady 12648430)]))) =
     [''zigbee-0'', ''zwave-c0ffee''] \<and>
   map (\<lambda>(k, a). adapter_ref a) (adapters (snd (gateway (\<lambda>n. n) 11 ''/dev/ttyACM0''
      [Manager (AddAdapter adapterB), ZWave DriverFailed, ZWave (DriverReady 12648430)]))) =
     [12, 11] \<and>
   adapter_id (fst (gateway (\<lambda>n. n) 11 ''/dev/ttyACM0''
      [Manager (AddAdapter adapterB), ZWave DriverFailed, ZWave (DriverReady 12648430)])) \<noteq> ''???''"
proof -
  let ?evs1 = "[Manager (AddAdapter adapterB), ZWave DriverFailed]"
  let ?evs2 = "[Manager (AddAdapter adapterB), ZWave DriverFailed, ZWave (DriverReady 12648430)]"
  obtain zw1 s1 where g1: "gateway (\<lambda>n. n) 11 ''/dev/ttyACM0'' ?evs1 = (zw1, s1)"
    by (cases "gateway (\<lambda>n. n) 11 ''/dev/ttyACM0'' ?evs1")
  obtain zw2 s2 where g2: "gateway (\<lambda>n. n) 11 ''/dev/ttyACM0'' ?evs2 = (zw2, s2)"
    by (cases "gateway (\<lambda>n. n) 11 ''/dev/ttyACM0'' ?evs2")
  have pre1: "\<forall>a. Manager (AddAdapter a) \<in> set ?evs1 \<longrightarrow> adapter_ref a \<noteq> 11"
    and pre2: "\<forall>a. Manager (AddAdapter a) \<in> set ?evs2 \<longrightarrow> adapter_ref a \<noteq> 11"
    by (simp_all add: adapterB_def)
  have never: "\<forall>h. ZWave (DriverReady h) \<notin> set ?evs1" by simp
  note t1 = zwave_adapter_registered_only_when_ready [OF pre1, of "\<lambda>n. n" "''/dev/ttyACM0''",
      unfolded g1 prod.case]
  note t2 = zwave_adapter_registered_only_when_ready [OF pre2, of "\<lambda>n. n" "''/dev/ttyACM0''",
      unfolded g2 prod.case]
  from t1 never have a: "adapter_id zw1 = ''???''"
    and b: "\<forall>(k, a) \<in> set (adapters s1). adapter_ref a \<noteq> 11" by blast+
  from b have b': "11 \<notin> (\<lambda>(k, a). adapter_ref a) ` set (adapters s1)" by auto
  have e2: "adapters s2 =
      [(''zigbee-0'', adapterB\<lparr>adapter_name := ''ZigBeeAdapter''\<rparr>),
       (''zwave-c0ffee'', \<lparr>adapter_ref = 11, adapter_id = ''zwave-c0ffee'',
          adapter_name = ''ZWaveAdapter'', constructor_name = ''ZWaveAdapter''\<rparr>)]"
    using g2 [symmetric] by (simp add: zwave_eval manager_eval adapterB_def hex_c0ffee)
  then have in2: "(''zwave-c0ffee'', \<lparr>adapter_ref = 11, adapter_id = ''zwave-c0ffee'',
          adapter_name = ''ZWaveAdapter'', constructor_name = ''ZWaveAdapter''\<rparr>) \<in> set (adapters s2)"
    by simp
  from t2 in2 have c: "adapter_id zw2 \<noteq> ''???''" by fastforce
  have k2: "map fst (adapters s2) = [''zigbee-0'', ''zwave-c0ffee'']"
    and r2: "map (\<lambda>(k, a). adapter_ref a) (adapters s2) = [12, 11]"
    by (simp_all add: e2 adapterB_def)
  show ?thesis
    unfolding g1 g2 fst_conv snd_conv using a b' c k2 r2 by blast
qed

subsection \<open>C10: the controller node is not a device\<close>

text \<open>
  Claim C10. For a node with \<open>nodeId <= 1\<close>, the Z-Wave adapter's \<open>handleDeviceAdded\<close>
  deletes the node's entry (keyed by \<open>zwInfo.nodeId\<close>) from \<open>nodesBeingAdded\<close> and does
  nothing else: the manager's state and trace are unchanged, so the node is not classified,
  not registered as a device, and no \<open>thing-added\<close> event is emitted for it. A node with
  \<open>nodeId > 1\<close> is classified and forwarded, and is then a device of the registry.
\<close>

theorem zwave_controller_node_never_forwarded:
  "(nodeId node \<le> 1 \<longrightarrow>
      ZWaveAdapter_handleDeviceAdded classify node zw s =
        (zw\<lparr>nodesBeingAdded := (nodesBeingAdded zw)(zwInfo_nodeId node := None)\<rparr>, s)) \<and>
   (1 < nodeId node \<longrightarrow>
      (\<exists>rest. trace (snd (ZWaveAdapter_handleDeviceAdded classify node zw s)) =
         trace s @
         [Classify (nodeId node),
          Emit ''thing-added'' (ThingPayload (getThing_of (device.truncate (classify node))))] @
         rest) \<and>
      getDevice (snd (ZWaveAdapter_handleDeviceAdded classify node zw s))
        (device_id (classify node)) = Object (device.truncate (classify node)))"
proof (cases "deferredAdd s")
  case None
  then have n: "deferredAdd (s\<lparr>trace := trace s @ [Classify (nodeId node)]\<rparr>) = None"
    by simp
  show ?thesis
    by (simp add: ZWaveAdapter_handleDeviceAdded_def Adapter_handleDeviceAdded_def
        handleDeviceAdded_idle [OF n] perform_def getDevice_def property_get_put_same device.defs)
next
  case (Some d)
  then have n: "deferredAdd (s\<lparr>trace := trace s @ [Classify (nodeId node)]\<rparr>) = Some d"
    by simp
  show ?thesis
    by (simp add: ZWaveAdapter_handleDeviceAdded_def Adapter_handleDeviceAdded_def
        handleDeviceAdded_adding [OF n] perform_def getDevice_def property_get_put_same device.defs)
qed

theorem zwave_controller_node_never_forwarded_witness:
  "nodeId controller_node \<le> 1 \<and>
   nodesBeingAdded zstick 1 = Some controller_node \<and>
   nodesBeingAdded (fst (ZWaveAdapter_handleDeviceAdded (\<lambda>n. n) controller_node zstick adding)) 1 =
     None \<and>
   snd (ZWaveAdapter_handleDeviceAdded (\<lambda>n. n) controller_node zstick adding) = adding \<and>
   1 < nodeId plug_node \<and>
   getDevice adding ''zwave-c0ffee-2'' = Undefined \<and>
   getDevice (snd (ZWaveAdapter_handleDeviceAdded (\<lambda>n. n) plug_node zstick adding))
     ''zwave-c0ffee-2'' = Object (device.truncate plug_node)"
proof -
  have c: "nodeId controller_node \<le> 1" and z: "zwInfo_nodeId controller_node = 1"
    and p: "1 < nodeId plug_node" and i: "device_id plug_node = ''zwave-c0ffee-2''"
    and b: "nodesBeingAdded zstick 1 = Some controller_node"
    and n: "getDevice adding ''zwave-c0ffee-2'' = Undefined"
    by (simp_all add: controller_node_def plug_node_def zstick_def zwave_eval example_defs
        manager_eval)
  note t1 = zwave_controller_node_never_forwarded [of controller_node "\<lambda>n. n" zstick adding]
  note t2 = zwave_controller_node_never_forwarded [of plug_node "\<lambda>n. n" zstick adding]
  from t1 c have r1: "ZWaveAdapter_handleDeviceAdded (\<lambda>n. n) controller_node zstick adding =
        (zstick\<lparr>nodesBeingAdded := (nodesBeingAdded zstick)(zwInfo_nodeId controller_node := None)\<rparr>,
         adding)" by blast
  from t2 p have r2: "getDevice (snd (ZWaveAdapter_handleDeviceAdded (\<lambda>n. n) plug_node zstick adding))
        (device_id plug_node) = Object (device.truncate plug_node)" by blast
  show ?thesis
    using c p b n r2 by (simp add: r1 z i)
qed

end
